theory Spec2Isabelle
  imports Main
begin

section \<open>Python and pandas values used by kabuka2.py\<close>

text \<open>
  The exceptions the script can meet.  Every \<^verbatim>\<open>raise\<close> of the interpreter or of
  a library call is a value \<open>Inl e\<close>; \<open>ProviderError\<close> stands for whatever
  \<^verbatim>\<open>yf.download\<close> raises (transport or provider failure).
\<close>

datatype exn = KeyError | AttributeError | TypeError | ValueError | OverflowError | ProviderError

text \<open>
  An axis label: a string, the float NaN that \<^verbatim>\<open>Index.map\<close> produces for a key
  missing from the dictionary, or a tuple (what iterating a two-level column index yields).
\<close>

datatype label = Str string | NaN | Tup label label

text \<open>
  \<^verbatim>\<open>hist.columns\<close>: a flat \<^verbatim>\<open>Index\<close> of labels, or a two-level \<^verbatim>\<open>MultiIndex\<close>
  whose entries are (level 0, level 1) pairs; the provider's grouped answer has the
  field at level 0 and the ticker symbol at level 1.
\<close>

datatype columns = Index "label list" | MultiIndex "(label \<times> label) list"

text \<open>
  The provider names its date index \<^verbatim>\<open>Date\<close> or leaves it unnamed; these are the two
  cases the source considers (line 117: the column is named \<^verbatim>\<open>Date\<close> or \<^verbatim>\<open>index\<close>).
\<close>

datatype axis_name = Unnamed | Named_Date

text \<open>
  The frame \<^verbatim>\<open>hist\<close> that \<^verbatim>\<open>yf.download\<close> returns: the row index, whether the
  index is a \<^verbatim>\<open>DatetimeIndex\<close>, the index's name, the columns, and the cells row by
  row (\<open>cells h ! i ! j\<close> is the cell at row \<open>i\<close>, column \<open>j\<close>).  A cell is of type
  \<open>'v\<close>; the script never computes with cells, it only moves them.
\<close>

record ('d, 'v) frame =
  index :: "'d list"
  is_datetime_index :: bool
  index_name :: axis_name
  columns :: columns
  cells :: "'v list list"

text \<open>
  The frame \<^verbatim>\<open>df_close\<close>: instruments as rows, dates as columns.  \<open>names\<close> is its row
  index (named \<^verbatim>\<open>Name\<close> by line 64), \<open>dates\<close> its columns, \<open>dates_name\<close> the name
  the column axis inherits from \<^verbatim>\<open>hist.index\<close>, and \<open>vals m ! i ! j\<close> the cell of
  instrument \<open>i\<close> at date \<open>j\<close>.
\<close>

record ('d, 'v) close_frame =
  names :: "label list"
  dates :: "'d list"
  dates_name :: axis_name
  vals :: "'v list list"

text \<open>A frame's cells are rectangular: \<open>n\<close> cells in every row.\<close>

definition rect :: "nat \<Rightarrow> 'v list list \<Rightarrow> bool" where
  "rect n rs = list_all (\<lambda>r. length r = n) rs"

definition ncols :: "columns \<Rightarrow> nat" where
  "ncols c = (case c of Index ls \<Rightarrow> length ls | MultiIndex ps \<Rightarrow> length ps)"

text \<open>\<^verbatim>\<open>hist.empty\<close>: true when either axis has length 0.\<close>

definition empty_frame :: "('d, 'v) frame \<Rightarrow> bool" where
  "empty_frame h = (index h = [] \<or> ncols (columns h) = 0)"

text \<open>\<^verbatim>\<open>df.T\<close> on the cells of a frame with \<open>n\<close> columns.\<close>

definition transpose_cells :: "nat \<Rightarrow> 'v list list \<Rightarrow> 'v list list" where
  "transpose_cells n rs = map (\<lambda>j. map (\<lambda>r. r ! j) rs) [0..<n]"

text \<open>The entries of \<open>xs\<close> that stand under the labels satisfying \<open>P\<close>.\<close>

definition pick :: "('c \<Rightarrow> bool) \<Rightarrow> 'c list \<Rightarrow> 'v list \<Rightarrow> 'v list" where
  "pick P ls xs = map snd (filter (\<lambda>lx. P (fst lx)) (zip ls xs))"

section \<open>Dates: \<^verbatim>\<open>datetime\<close> and \<^verbatim>\<open>timedelta\<close>\<close>

text \<open>
  A naive \<^verbatim>\<open>datetime\<close> is the number of microseconds since \<^verbatim>\<open>datetime.min\<close>
  (0001-01-01 00:00); \<^verbatim>\<open>datetime.max\<close> is the last microsecond of day 3652059
  (9999-12-31).  \<^verbatim>\<open>timedelta(days=d)\<close> raises OverflowError beyond 999999999 days, and
  a subtraction that leaves the range raises OverflowError.
\<close>

definition us_per_day :: int where
  "us_per_day = 86400000000"

definition datetime_end :: int where
  "datetime_end = 3652059 * us_per_day"

definition timedelta :: "int \<Rightarrow> exn + int" where
  "timedelta d = (if \<bar>d\<bar> > 999999999 then Inl OverflowError else Inr (d * us_per_day))"

definition datetime_sub :: "int \<Rightarrow> int \<Rightarrow> exn + int" where
  "datetime_sub t delta =
     (let r = t - delta in if 0 \<le> r \<and> r < datetime_end then Inr r else Inl OverflowError)"

text \<open>The calendar day of an instant, as days since 0001-01-01.\<close>

definition date_of :: "int \<Rightarrow> int" where
  "date_of t = t div us_per_day"

text \<open>The number of calendar days a window touches, both end days included.\<close>

definition calendar_days :: "int \<times> int \<Rightarrow> int" where
  "calendar_days w = date_of (snd w) - date_of (fst w) + 1"

text \<open>Lines 36-37 of \<^verbatim>\<open>get_data\<close>: the window \<open>(start_date, end_date)\<close>.\<close>

definition date_window :: "int \<Rightarrow> int \<Rightarrow> exn + (int \<times> int)" where
  "date_window now days =
     (let end_date = now in
      case timedelta (days - 1) of
        Inl e \<Rightarrow> Inl e
      | Inr delta \<Rightarrow>
          (case datetime_sub end_date delta of
             Inl e \<Rightarrow> Inl e
           | Inr start_date \<Rightarrow> Inr (start_date, end_date)))"

section \<open>The instrument mapping\<close>

text \<open>
  A Python dict is the list of its items in insertion order; its keys are distinct.
  Lines 75-83: the mapping every run uses.
\<close>

type_synonym tickers = "(string \<times> string) list"

definition tickers :: tickers where
  "tickers =
     [(''apple'', ''AAPL''), (''meta'', ''META''), (''google'', ''GOOGL''),
      (''microsoft'', ''MSFT''), (''netflix'', ''NFLX''), (''amazon'', ''AMZN'')]"

definition company_names :: "string list" where
  "company_names = map fst tickers"

text \<open>Line 56: \<^verbatim>\<open>{v: k for k, v in tickers.items()}\<close>; a later item overwrites.\<close>

definition ticker_to_name :: "tickers \<Rightarrow> (string \<rightharpoonup> string)" where
  "ticker_to_name tks = fold (\<lambda>kv m. m(snd kv \<mapsto> fst kv)) tks Map.empty"

text \<open>
  \<^verbatim>\<open>Index.map(d)\<close> on one label: the dictionary's value, NaN for a label that is not
  a key (the keys are strings).
\<close>

definition map_label :: "(string \<rightharpoonup> string) \<Rightarrow> label \<Rightarrow> label" where
  "map_label d l =
     (case l of
        Str s \<Rightarrow> (case d s of Some n \<Rightarrow> Str n | None \<Rightarrow> NaN)
      | NaN \<Rightarrow> NaN
      | Tup a b \<Rightarrow> NaN)"

section \<open>The data fetcher: \<^verbatim>\<open>get_data\<close> (lines 31-71)\<close>

text \<open>
  The market-data provider \<^verbatim>\<open>yf.download(tkr_list, start=..., end=...)\<close> is outside
  the repository: it is a parameter that answers a request with a frame or raises.
\<close>

type_synonym request = "string list \<times> int \<times> int"

type_synonym ('d, 'v) provider = "string list \<Rightarrow> int \<Rightarrow> int \<Rightarrow> exn + ('d, 'v) frame"

text \<open>
  The \<^verbatim>\<open>st.error\<close> reports of the script, by the line that writes them:
  \<open>EmptyResult\<close> line 45 (no price data for the period),
  \<open>FetchFailed e\<close> line 69 and \<open>Traceback e\<close> lines 70 and 193,
  \<open>NoSelection\<close> line 109 (choose at least one company),
  \<open>EmptyResultFor name\<close> line 157 (no OHLC data for the company),
  \<open>PipelineFailed\<close> line 189 and \<open>Unexpected e\<close> line 192.
\<close>

datatype message =
  EmptyResult
| FetchFailed exn
| Traceback exn
| NoSelection
| EmptyResultFor string
| PipelineFailed
| Unexpected exn

text \<open>
  What \<^verbatim>\<open>get_data\<close> returns: \<^verbatim>\<open>None\<close> (line 46), or a pair (lines 66 and 71)
  whose components are a frame or \<^verbatim>\<open>None\<close>.
\<close>

datatype ('d, 'v) returned =
  RetNone
| RetPair "('d, 'v) frame option" "('d, 'v) close_frame option"

text \<open>One run of the body: the provider requests issued, the reports, the value.\<close>

record ('d, 'v) fetch_run =
  requests :: "request list"
  reports :: "message list"
  ret :: "('d, 'v) returned"

text \<open>
  Line 51, \<^verbatim>\<open>pd.concat({key: hist}, axis=1)\<close> on flat columns: the key becomes level 0
  and the old label level 1.
\<close>

definition concat_keyed :: "string \<Rightarrow> label list \<Rightarrow> columns" where
  "concat_keyed key ls = MultiIndex (map (\<lambda>c. (Str key, c)) ls)"

text \<open>Iterating \<^verbatim>\<open>hist.columns\<close>: a two-level index yields tuples.\<close>

definition iter_columns :: "columns \<Rightarrow> label list" where
  "iter_columns c = (case c of Index ls \<Rightarrow> ls | MultiIndex ps \<Rightarrow> map (\<lambda>p. Tup (fst p) (snd p)) ps)"

text \<open>
  Lines 48-52: the single-instrument adjustment.  It runs only for one ticker whose
  answer has an index that is not a \<^verbatim>\<open>DatetimeIndex\<close> and flat columns; line 52
  then pairs every label of the columns built by line 51 with the ticker.
\<close>

definition single_ticker_fix :: "string list \<Rightarrow> ('d, 'v) frame \<Rightarrow> ('d, 'v) frame" where
  "single_ticker_fix tkr_list hist =
     (if length tkr_list = 1 \<and> is_datetime_index hist = False then
        (case columns hist of
           MultiIndex ps \<Rightarrow> hist
         | Index ls \<Rightarrow>
             (let hist1 = hist\<lparr>columns := concat_keyed (tkr_list ! 0) ls\<rparr>
              in hist1\<lparr>columns :=
                   MultiIndex (zip (iter_columns (columns hist1))
                                   (replicate (ncols (columns hist1)) (Str (tkr_list ! 0))))\<rparr>))
      else hist)"

text \<open>
  \<^verbatim>\<open>hist[key]\<close>.  On a two-level index: the columns whose level 0 is the key, labelled
  by their level 1; KeyError when there is none.  On a flat index: KeyError when the
  key is no column, a \<^verbatim>\<open>Series\<close> when it is exactly one, a frame when it is repeated.
\<close>

datatype 'v picked = Series "'v list" | SubFrame "label list" "'v list list"

definition getitem :: "('d, 'v) frame \<Rightarrow> label \<Rightarrow> exn + 'v picked" where
  "getitem h key =
     (case columns h of
        MultiIndex ps \<Rightarrow>
          (if key \<in> fst ` set ps
           then Inr (SubFrame (map snd (filter (\<lambda>p. fst p = key) ps))
                              (map (pick (\<lambda>p. fst p = key) ps) (cells h)))
           else Inl KeyError)
      | Index ls \<Rightarrow>
          (if key \<in> set ls
           then (if length (filter (\<lambda>l. l = key) ls) = 1
                 then Inr (Series (concat (map (pick (\<lambda>l. l = key) ls) (cells h))))
                 else Inr (SubFrame (filter (\<lambda>l. l = key) ls)
                                    (map (pick (\<lambda>l. l = key) ls) (cells h))))
           else Inl KeyError))"

text \<open>
  Lines 56-64: \<^verbatim>\<open>df_close\<close>.  A \<^verbatim>\<open>Series\<close> has no attribute \<^verbatim>\<open>columns\<close>, so
  line 62 raises AttributeError on it.
\<close>

definition df_close :: "tickers \<Rightarrow> ('d, 'v) frame \<Rightarrow> exn + ('d, 'v) close_frame" where
  "df_close tks hist =
     (case getitem hist (Str ''Close'') of
        Inl e \<Rightarrow> Inl e
      | Inr (Series vs) \<Rightarrow> Inl AttributeError
      | Inr (SubFrame ls vs) \<Rightarrow>
          Inr \<lparr>names = map (map_label (ticker_to_name tks)) ls,
               dates = index hist,
               dates_name = index_name hist,
               vals = transpose_cells (length ls) vs\<rparr>)"

text \<open>The \<^verbatim>\<open>except Exception\<close> of lines 68-71.\<close>

definition fetch_failed :: "request list \<Rightarrow> exn \<Rightarrow> ('d, 'v) fetch_run" where
  "fetch_failed reqs e =
     \<lparr>requests = reqs, reports = [FetchFailed e, Traceback e], ret = RetPair None None\<rparr>"

definition get_data ::
  "('d, 'v) provider \<Rightarrow> int \<Rightarrow> int \<Rightarrow> tickers \<Rightarrow> ('d, 'v) fetch_run" where
  "get_data yf now days tks =
     (case date_window now days of
        Inl e \<Rightarrow> fetch_failed [] e
      | Inr w \<Rightarrow>
          (let start_date = fst w; end_date = snd w;
               tkr_list = map snd tks;
               req = (tkr_list, start_date, end_date)
           in case yf tkr_list start_date end_date of
                Inl e \<Rightarrow> fetch_failed [req] e
              | Inr hist \<Rightarrow>
                  if empty_frame hist
                  then \<lparr>requests = [req], reports = [EmptyResult], ret = RetNone\<rparr>
                  else (let hist' = single_ticker_fix tkr_list hist
                        in case df_close tks hist' of
                             Inl e \<Rightarrow> fetch_failed [req] e
                           | Inr close \<Rightarrow>
                               \<lparr>requests = [req], reports = [],
                                ret = RetPair (Some hist') (Some close)\<rparr>)))"

text \<open>
  Modelled from the spec: the memoization that the decorator of line 31,
  \<^verbatim>\<open>@st.cache_data\<close>, gives \<^verbatim>\<open>get_data\<close>; the decorator is library code that is
  not among the sources.  The specification: the fetch is memoized on the exact
  (day_count, instrument-set) key; identical repeated calls within the same process
  lifetime must not re-issue the network request; cache entries never expire within a
  session.  So the session keeps, for every argument pair already seen, the value
  returned and the reports to replay, and the body runs only for a new pair.
  \<open>issued\<close> collects the provider requests that the runs of the body made.
\<close>

record ('d, 'v) session =
  cache :: "(int \<times> tickers) \<rightharpoonup> (message list \<times> ('d, 'v) returned)"
  issued :: "request list"

definition cached_get_data ::
  "('d, 'v) session \<Rightarrow> ('d, 'v) provider \<Rightarrow> int \<Rightarrow> int \<Rightarrow> tickers
     \<Rightarrow> ('d, 'v) session \<times> message list \<times> ('d, 'v) returned" where
  "cached_get_data s yf now days tks =
     (case cache s (days, tks) of
        Some hit \<Rightarrow> (s, hit)
      | None \<Rightarrow>
          (let run = get_data yf now days tks
           in (\<lparr>cache = (cache s)((days, tks) \<mapsto> (reports run, ret run)),
                issued = issued s @ requests run\<rparr>,
               reports run, ret run)))"


section \<open>The view shaper (lines 98-157)\<close>

text \<open>
  A frame after \<^verbatim>\<open>reset_index()\<close>: the column labels, the first being the column made
  from the index, and every row as the index entry with the row's cells.
\<close>

record ('d, 'v) dated_table =
  table_columns :: "label list"
  table_rows :: "('d \<times> 'v list) list"

definition empty_table :: "('d, 'v) dated_table \<Rightarrow> bool" where
  "empty_table t = (table_rows t = [] \<or> table_columns t = [])"

text \<open>
  \<^verbatim>\<open>reset_index()\<close> labels the new column with the index's name; an unnamed index
  gives \<^verbatim>\<open>index\<close>, or \<^verbatim>\<open>level_0\<close> when \<^verbatim>\<open>index\<close> is already a column.  It raises
  ValueError when the label is already a column.
\<close>

definition reset_index_label :: "axis_name \<Rightarrow> label list \<Rightarrow> string" where
  "reset_index_label nm cols =
     (case nm of
        Named_Date \<Rightarrow> ''Date''
      | Unnamed \<Rightarrow> (if Str ''index'' \<in> set cols then ''level_0'' else ''index''))"

definition reset_index ::
  "axis_name \<Rightarrow> 'd list \<Rightarrow> label list \<Rightarrow> 'v list list \<Rightarrow> exn + ('d, 'v) dated_table" where
  "reset_index nm idx cols cs =
     (let l = reset_index_label nm cols
      in if Str l \<in> set cols then Inl ValueError
         else Inr \<lparr>table_columns = Str l # cols, table_rows = zip idx cs\<rparr>)"

text \<open>
  Line 112, \<^verbatim>\<open>df_close_processed.loc[companies]\<close>: the rows with the listed labels, in
  the order listed; KeyError when a label is no row.
\<close>

definition loc_rows :: "('d, 'v) close_frame \<Rightarrow> label list \<Rightarrow> exn + ('d, 'v) close_frame" where
  "loc_rows df keys =
     (if set keys \<subseteq> set (names df)
      then Inr (df\<lparr>names := concat (map (\<lambda>k. filter (\<lambda>n. n = k) (names df)) keys),
                  vals := concat (map (\<lambda>k. pick (\<lambda>n. n = k) (names df) (vals df)) keys)\<rparr>)
      else Inl KeyError)"

text \<open>
  \<^verbatim>\<open>pd.melt(t, id_vars=[first column])\<close>: for every other column in turn, one row per
  row of \<open>t\<close>: the id, the column's label (under \<^verbatim>\<open>Name\<close>, the column axis's name) and
  the cell (under \<^verbatim>\<open>value\<close>).  ValueError when \<^verbatim>\<open>value\<close> is already a column.
\<close>

type_synonym ('d, 'v) long_form = "('d \<times> label \<times> 'v) list"

definition melt :: "('d, 'v) dated_table \<Rightarrow> exn + ('d, 'v) long_form" where
  "melt t =
     (let value_vars = tl (table_columns t)
      in if Str ''value'' \<in> set (table_columns t) then Inl ValueError
         else Inr (concat (map (\<lambda>j. map (\<lambda>dr. (fst dr, value_vars ! j, snd dr ! j)) (table_rows t))
                               [0..<length value_vars])))"

text \<open>
  Lines 116-121: \<^verbatim>\<open>data_lines.T.reset_index()\<close>, then the melt on the first column;
  the final rename gives the columns \<^verbatim>\<open>Date\<close>, \<^verbatim>\<open>Name\<close>, \<^verbatim>\<open>Stock Prices(USD)\<close>.
\<close>

definition data_melt :: "('d, 'v) close_frame \<Rightarrow> exn + ('d, 'v) long_form" where
  "data_melt data_lines =
     (case reset_index (dates_name data_lines) (dates data_lines) (names data_lines)
             (transpose_cells (length (dates data_lines)) (vals data_lines)) of
        Inl e \<Rightarrow> Inl e
      | Inr t \<Rightarrow> melt t)"

text \<open>What a render pass shows: reports and charts (echoed text and tables are left out).\<close>

datatype ('d, 'v) element =
  Report message
| LineChart "('d, 'v) long_form"
| CandleChart "('d, 'v) dated_table"

text \<open>Lines 108-135, the multi-line branch: the spec's \<^verbatim>\<open>toLongForm\<close> and its chart.\<close>

definition line_chart :: "('d, 'v) close_frame \<Rightarrow> string list \<Rightarrow> exn + ('d, 'v) element list" where
  "line_chart df companies =
     (if companies = [] then Inr [Report NoSelection]
      else case loc_rows df (map Str companies) of
             Inl e \<Rightarrow> Inl e
           | Inr data_lines \<Rightarrow>
               (case data_melt data_lines of
                  Inl e \<Rightarrow> Inl e
                | Inr long \<Rightarrow> Inr [LineChart long]))"

text \<open>
  Line 152, \<^verbatim>\<open>hist_data.loc[:, (slice(None), selected_ticker)]\<close>: the columns whose
  level 1 is the ticker, both levels kept; KeyError when there is none.  On a flat
  column index the tuple is looked up as one label and raises TypeError (a slice is
  unhashable).
\<close>

definition loc_ticker :: "('d, 'v) frame \<Rightarrow> label \<Rightarrow> exn + ('d, 'v) frame" where
  "loc_ticker h t =
     (case columns h of
        MultiIndex ps \<Rightarrow>
          (if t \<in> snd ` set ps
           then Inr (h\<lparr>columns := MultiIndex (filter (\<lambda>p. snd p = t) ps),
                       cells := map (pick (\<lambda>p. snd p = t) ps) (cells h)\<rparr>)
           else Inl KeyError)
      | Index ls \<Rightarrow> Inl TypeError)"

text \<open>Line 153, \<^verbatim>\<open>columns.droplevel(1)\<close>; a flat index has no level to drop.\<close>

definition droplevel1 :: "columns \<Rightarrow> exn + label list" where
  "droplevel1 c = (case c of MultiIndex ps \<Rightarrow> Inr (map fst ps) | Index ls \<Rightarrow> Inl ValueError)"

text \<open>
  Line 154, \<^verbatim>\<open>df[[k1, ..., kn]]\<close> on flat columns: the columns with the listed labels in
  the order listed; KeyError when a label is no column.
\<close>

definition getitem_list ::
  "label list \<Rightarrow> label list \<Rightarrow> 'v list list \<Rightarrow> exn + (label list \<times> 'v list list)" where
  "getitem_list keys ls cs =
     (if set keys \<subseteq> set ls
      then Inr (concat (map (\<lambda>k. filter (\<lambda>l. l = k) ls) keys),
                map (\<lambda>row. concat (map (\<lambda>k. pick (\<lambda>l. l = k) ls row) keys)) cs)
      else Inl KeyError)"

text \<open>Lines 152-154: the spec's \<^verbatim>\<open>toSingleInstrumentOHLC\<close> before its emptiness check.\<close>

definition ohlc_data :: "('d, 'v) frame \<Rightarrow> string \<Rightarrow> exn + ('d, 'v) dated_table" where
  "ohlc_data hist_data selected_ticker =
     (case loc_ticker hist_data (Str selected_ticker) of
        Inl e \<Rightarrow> Inl e
      | Inr sel \<Rightarrow>
          (case droplevel1 (columns sel) of
             Inl e \<Rightarrow> Inl e
           | Inr ls \<Rightarrow>
               (case getitem_list [Str ''Open'', Str ''High'', Str ''Low'', Str ''Close''] ls (cells sel) of
                  Inl e \<Rightarrow> Inl e
                | Inr picked \<Rightarrow> reset_index (index_name sel) (index sel) (fst picked) (snd picked))))"

text \<open>
  Lines 147-186, the candlestick branch.  The chart's encodings (lines 160-182) name the
  fields \<^verbatim>\<open>Date\<close>, \<^verbatim>\<open>Open\<close>, \<^verbatim>\<open>High\<close>, \<^verbatim>\<open>Low\<close> and \<^verbatim>\<open>Close\<close>, and this branch
  does not rename the column that \<^verbatim>\<open>reset_index\<close> made: when the table has no column
  \<^verbatim>\<open>Date\<close>, drawing the chart at line 186 raises ValueError.
\<close>

definition candlestick ::
  "tickers \<Rightarrow> ('d, 'v) frame \<Rightarrow> string \<Rightarrow> exn + ('d, 'v) element list" where
  "candlestick tks hist_data selected_company =
     (case map_of tks selected_company of
        None \<Rightarrow> Inl KeyError
      | Some selected_ticker \<Rightarrow>
          (case ohlc_data hist_data selected_ticker of
             Inl e \<Rightarrow> Inl e
           | Inr t \<Rightarrow>
               if empty_table t then Inr [Report (EmptyResultFor selected_company)]
               else if Str ''Date'' \<in> set (table_columns t) then Inr [CandleChart t]
               else Inl ValueError))"

section \<open>The render pass (lines 73-193)\<close>

datatype chart_type = MultiLineChart | CandlestickChart

text \<open>The widget state the UI host supplies.\<close>

record ui =
  ui_days :: int
  ui_chart_type :: chart_type
  ui_companies :: "string list"
  ui_selected_company :: string

text \<open>
  Line 86 unpacks the value of \<^verbatim>\<open>get_data\<close> into two names: unpacking \<^verbatim>\<open>None\<close>
  raises TypeError.  Every exception of the body reaches the handler of lines 191-193.
\<close>

definition main ::
  "('d, 'v) session \<Rightarrow> ('d, 'v) provider \<Rightarrow> int \<Rightarrow> ui \<Rightarrow> ('d, 'v) session \<times> ('d, 'v) element list" where
  "main s yf now u =
     (case cached_get_data s yf now (ui_days u) tickers of
        (s', msgs, r) \<Rightarrow>
          (s', map Report msgs @
               (case r of
                  RetNone \<Rightarrow> [Report (Unexpected TypeError), Report (Traceback TypeError)]
                | RetPair None df \<Rightarrow> [Report PipelineFailed]
                | RetPair (Some hist_data) None \<Rightarrow> [Report PipelineFailed]
                | RetPair (Some hist_data) (Some close) \<Rightarrow>
                    (case (case ui_chart_type u of
                             MultiLineChart \<Rightarrow> line_chart close (ui_companies u)
                           | CandlestickChart \<Rightarrow>
                               candlestick tickers hist_data (ui_selected_company u)) of
                       Inl e \<Rightarrow> [Report (Unexpected e), Report (Traceback e)]
                     | Inr shown \<Rightarrow> shown))))"

section \<open>The data model of the specification\<close>

definition ohlc_fields :: "label list" where
  "ohlc_fields = [Str ''Open'', Str ''High'', Str ''Low'', Str ''Close'']"

text \<open>
  An OHLC Table: grouped (field, instrument) columns without repetition, a date index
  without repetition, rectangular cells, and all four fields for every instrument that
  has a column.
\<close>

definition ohlc_table :: "('d, 'v) frame \<Rightarrow> bool" where
  "ohlc_table h =
     (case columns h of
        Index ls \<Rightarrow> False
      | MultiIndex ps \<Rightarrow>
          distinct ps \<and> distinct (index h)
          \<and> length (cells h) = length (index h) \<and> rect (length ps) (cells h)
          \<and> list_all (\<lambda>p. list_all (\<lambda>f. (f, snd p) \<in> set ps) ohlc_fields) ps)"

text \<open>The cell of an OHLC Table at a date and a (field, instrument) column, by label.\<close>

definition hist_at :: "('d, 'v) frame \<Rightarrow> 'd \<Rightarrow> label \<times> label \<Rightarrow> 'v option" where
  "hist_at h d col =
     (case columns h of
        Index ls \<Rightarrow> None
      | MultiIndex ps \<Rightarrow>
          (case map_of (zip (index h) (cells h)) d of
             None \<Rightarrow> None
           | Some row \<Rightarrow> map_of (zip ps row) col))"

text \<open>
  A Close Matrix: row labels and dates without repetition, at least one date (the table
  it is projected from has rows: \<^verbatim>\<open>get_data\<close> returns no table without), one row of
  cells per instrument and one cell per date.
\<close>

definition close_matrix :: "('d, 'v) close_frame \<Rightarrow> bool" where
  "close_matrix m =
     (distinct (names m) \<and> distinct (dates m) \<and> dates m \<noteq> []
      \<and> length (vals m) = length (names m) \<and> rect (length (dates m)) (vals m))"

text \<open>
  The long form of a matrix, instrument by instrument: for every row of the matrix in
  turn, one (date, name, cell) triple per date.
\<close>

definition long_rows :: "'d list \<Rightarrow> label list \<Rightarrow> 'v list list \<Rightarrow> ('d, 'v) long_form" where
  "long_rows ds ns vs =
     concat (map (\<lambda>nr. map (\<lambda>dv. (fst dv, fst nr, snd dv)) (zip ds (snd nr))) (zip ns vs))"

text \<open>The entry of a Close Matrix at an instrument and a date, by label.\<close>

definition close_at :: "('d, 'v) close_frame \<Rightarrow> label \<Rightarrow> 'd \<Rightarrow> 'v option" where
  "close_at m n d =
     (case map_of (zip (names m) (vals m)) n of
        None \<Rightarrow> None
      | Some row \<Rightarrow> map_of (zip (dates m) row) d)"

text \<open>
  A selection the reshaping of lines 116-121 accepts: no selected name is the label
  \<^verbatim>\<open>reset_index\<close> inserts or the label \<^verbatim>\<open>value\<close> of the melt.  Every selection of
  the six display names is one.
\<close>

definition selectable :: "axis_name \<Rightarrow> string list \<Rightarrow> bool" where
  "selectable nm companies =
     (reset_index_label nm (map Str companies) \<notin> set companies \<and> ''value'' \<notin> set companies)"

text \<open>
  The re-pivot of the round-trip property, from the words of the specification: the
  long form back into an instruments-by-dates matrix.  A price is \<open>Some p\<close> or missing
  (\<open>None\<close>); a pair with no row is missing.
\<close>

definition re_pivot :: "('d, 'p option) long_form \<Rightarrow> ('d, 'p option) close_frame" where
  "re_pivot long =
     (let ns = remdups (map (\<lambda>r. fst (snd r)) long);
          ds = remdups (map fst long);
          price = map_of (map (\<lambda>r. ((fst (snd r), fst r), snd (snd r))) long)
      in \<lparr>names = ns, dates = ds, dates_name = Named_Date,
          vals = map (\<lambda>n. map (\<lambda>d. case price (n, d) of None \<Rightarrow> None | Some v \<Rightarrow> v) ds) ns\<rparr>)"

section \<open>Sample data\<close>

text \<open>
  Two instruments over three days (days counted from 0001-01-01, prices in cents);
  the second day is a non-trading day for AAPL.
\<close>

definition sample_hist :: "(int, int option) frame" where
  "sample_hist =
     \<lparr>index = [739921, 739922, 739923], is_datetime_index = True, index_name = Named_Date,
      columns = MultiIndex
        [(Str ''Close'', Str ''AAPL''), (Str ''Close'', Str ''META''),
         (Str ''High'', Str ''AAPL''), (Str ''High'', Str ''META''),
         (Str ''Low'', Str ''AAPL''), (Str ''Low'', Str ''META''),
         (Str ''Open'', Str ''AAPL''), (Str ''Open'', Str ''META'')],
      cells =
        [[Some 27010, Some 63020, Some 27150, Some 63500, Some 26800, Some 62900, Some 26900, Some 63100],
         [None, Some 63310, None, Some 63800, None, Some 63000, None, Some 63050],
         [Some 27230, Some 62750, Some 27400, Some 63400, Some 27000, Some 62500, Some 27050, Some 63300]]\<rparr>"

text \<open>The answer for one instrument without the grouping level.\<close>

definition sample_flat :: "(int, int option) frame" where
  "sample_flat =
     \<lparr>index = [739921, 739923], is_datetime_index = True, index_name = Named_Date,
      columns = Index [Str ''Close'', Str ''High'', Str ''Low'', Str ''Open'', Str ''Volume''],
      cells =
        [[Some 27010, Some 27150, Some 26800, Some 26900, Some 41000000],
         [Some 27230, Some 27400, Some 27000, Some 27050, Some 38000000]]\<rparr>"

definition sample_close :: "(int, int option) close_frame" where
  "sample_close =
     \<lparr>names = [Str ''apple'', Str ''meta''], dates = [739921, 739922, 739923],
      dates_name = Named_Date,
      vals = [[Some 27010, None, Some 27230], [Some 63020, Some 63310, Some 62750]]\<rparr>"

text \<open>Noon of 2026-11-04, and a session that has fetched nothing yet.\<close>

definition sample_now :: int where
  "sample_now = 739923 * us_per_day + 43200000000"

definition new_session :: "('d, 'v) session" where
  "new_session = \<lparr>cache = Map.empty, issued = []\<rparr>"

text \<open>The provider's answer for a window without a trading day: no rows.\<close>

definition sample_empty :: "(int, int option) frame" where
  "sample_empty = sample_hist\<lparr>index := [], cells := []\<rparr>"

definition sample_ui :: ui where
  "sample_ui = \<lparr>ui_days = 30, ui_chart_type = MultiLineChart,
                 ui_companies = [''apple'', ''meta''], ui_selected_company = ''apple''\<rparr>"


text \<open>The sample table with its rows in another order: the dates are not increasing.\<close>

definition sample_unsorted :: "(int, int option) frame" where
  "sample_unsorted =
     sample_hist\<lparr>index := [739923, 739921, 739922],
       cells :=
         [[Some 27230, Some 62750, Some 27400, Some 63400, Some 27000, Some 62500, Some 27050, Some 63300],
          [Some 27010, Some 63020, Some 27150, Some 63500, Some 26800, Some 62900, Some 26900, Some 63100],
          [None, Some 63310, None, Some 63800, None, Some 63000, None, Some 63050]]\<rparr>"

section \<open>The instrument mapping is invertible\<close>

lemma ticker_to_name_tickers:
  "ticker_to_name tickers =
     [''AAPL'' \<mapsto> ''apple'', ''META'' \<mapsto> ''meta'', ''GOOGL'' \<mapsto> ''google'',
      ''MSFT'' \<mapsto> ''microsoft'', ''NFLX'' \<mapsto> ''netflix'', ''AMZN'' \<mapsto> ''amazon'']"
  by (simp add: ticker_to_name_def tickers_def)

text \<open>
  C10.  The mapping of lines 75-83 has six items, its display names are pairwise
  distinct and so are its ticker symbols; the inverted dictionary of line 56 has six
  keys; looking a name up gives its symbol and looking a symbol up gives its name, for
  every item; and the relabelling of line 62 turns every requested symbol into its
  display name (never NaN).
\<close>

theorem tickers_invertible:
  "length tickers = 6
   \<and> distinct (map fst tickers)
   \<and> distinct (map snd tickers)
   \<and> card (dom (ticker_to_name tickers)) = length tickers
   \<and> map (map_of tickers) company_names = map (\<lambda>kv. Some (snd kv)) tickers
   \<and> map (ticker_to_name tickers) (map snd tickers) = map (\<lambda>kv. Some (fst kv)) tickers
   \<and> map (map_label (ticker_to_name tickers)) (map (\<lambda>kv. Str (snd kv)) tickers)
       = map (\<lambda>kv. Str (fst kv)) tickers"
proof -
  have a: "length tickers = 6 \<and> distinct (map fst tickers) \<and> distinct (map snd tickers)"
    by (simp add: tickers_def)
  have b: "card (dom (ticker_to_name tickers)) = length tickers"
    unfolding ticker_to_name_tickers by (simp add: tickers_def)
  have c: "map (map_of tickers) company_names = map (\<lambda>kv. Some (snd kv)) tickers"
    by (simp add: company_names_def tickers_def)
  have d: "map (ticker_to_name tickers) (map snd tickers) = map (\<lambda>kv. Some (fst kv)) tickers"
    unfolding ticker_to_name_tickers by (simp add: tickers_def)
  have e: "map (map_label (ticker_to_name tickers)) (map (\<lambda>kv. Str (snd kv)) tickers)
       = map (\<lambda>kv. Str (fst kv)) tickers"
    unfolding ticker_to_name_tickers by (simp add: tickers_def map_label_def)
  from a b c d e show ?thesis by blast
qed

section \<open>An empty selection\<close>

text \<open>
  C8.  For every Close Matrix, the multi-line branch with no company selected reports
  NoSelection and shows nothing else: no long form is built and no chart is drawn.
\<close>

theorem line_chart_no_selection:
  "line_chart m [] = Inr [Report NoSelection]"
  by (simp add: line_chart_def)

section \<open>The requested window\<close>

lemma date_window_ok:
  assumes "1 \<le> days" "(days - 1) * us_per_day \<le> now" "now < datetime_end"
  shows "date_window now days = Inr (now - (days - 1) * us_per_day, now)"
proof -
  have "(days - 1) * us_per_day < 3652059 * us_per_day"
    using assms by (simp add: datetime_end_def)
  then have "days - 1 < 3652059" by (simp add: us_per_day_def)
  then have "timedelta (days - 1) = Inr ((days - 1) * us_per_day)"
    using assms(1) by (simp add: timedelta_def)
  moreover have "0 \<le> (days - 1) * us_per_day"
    using assms(1) by (simp add: us_per_day_def)
  then have "datetime_sub now ((days - 1) * us_per_day) = Inr (now - (days - 1) * us_per_day)"
    using assms by (simp add: datetime_sub_def)
  ultimately show ?thesis by (simp add: date_window_def)
qed

lemma date_of_window_start:
  "date_of (now - (days - 1) * us_per_day) = date_of now - (days - 1)"
  by (simp add: date_of_def us_per_day_def div_diff)

lemma get_data_requests:
  "date_window now days = Inr w \<Longrightarrow>
   requests (get_data yf now days tks) = [(map snd tks, fst w, snd w)]"
  by (simp add: get_data_def Let_def fetch_failed_def split: sum.splits)

lemma sample_window: "date_window sample_now 30 = Inr (sample_now - 29 * us_per_day, sample_now)"
  using date_window_ok [of 30 sample_now]
  by (simp add: sample_now_def us_per_day_def datetime_end_def)

text \<open>
  C4, as amended.  For every day count of at least 1 whose window start is a
  representable instant (not before 0001-01-01, which holds for every slider value
  1..100 at any clock reading after the first 99 days of year 1), \<^verbatim>\<open>get_data\<close> issues
  exactly one request, for all the mapping's symbols; its window ends at the clock
  reading, starts \<open>days - 1\<close> whole days earlier, and so touches exactly \<open>days\<close>
  calendar days, today included.  The first requested day is \<open>days - 1\<close> days before
  today: today itself when \<open>days = 1\<close>.
\<close>

theorem get_data_window:
  assumes "1 \<le> days" and "(days - 1) * us_per_day \<le> now" and "now < datetime_end"
  shows "requests (get_data yf now days tks)
           = [(map snd tks, now - (days - 1) * us_per_day, now)]
         \<and> calendar_days (now - (days - 1) * us_per_day, now) = days
         \<and> date_of (now - (days - 1) * us_per_day) = date_of now - (days - 1)"
proof -
  have "requests (get_data yf now days tks)
           = [(map snd tks, now - (days - 1) * us_per_day, now)]"
    using get_data_requests [OF date_window_ok [OF assms]] by simp
  moreover have "calendar_days (now - (days - 1) * us_per_day, now) = days"
    by (simp add: calendar_days_def date_of_window_start)
  ultimately show ?thesis by (simp add: date_of_window_start)
qed

text \<open>With \<open>days = 1\<close> at noon of 2026-11-04 the window is that instant alone.\<close>

theorem get_data_window_witness:
  "requests (get_data (\<lambda>ts s e. Inr sample_hist) sample_now 1 tickers)
     = [(map snd tickers, sample_now, sample_now)]
   \<and> calendar_days (sample_now, sample_now) = 1
   \<and> date_of sample_now = 739923"
proof -
  have a: "(1::int) \<le> 1" by simp
  have b: "(1 - 1) * us_per_day \<le> sample_now" by (simp add: sample_now_def us_per_day_def)
  have c: "sample_now < datetime_end" by (simp add: sample_now_def datetime_end_def us_per_day_def)
  have "date_of sample_now = 739923" by (simp add: date_of_def sample_now_def us_per_day_def)
  then show ?thesis
    using get_data_window [OF a b c, of "\<lambda>ts s e. Inr sample_hist" tickers] by simp
qed

text \<open>
  Without the bound the statement fails.  For a day count whose window would start
  before 0001-01-01, such as 1000000 days on 2026-11-04, line 37 raises OverflowError,
  the handler of line 68 reports it, and no request is issued at all.
\<close>

theorem get_data_window_overflow:
  "get_data (\<lambda>ts s e. Inr sample_hist) sample_now 1000000 tickers
     = \<lparr>requests = [], reports = [FetchFailed OverflowError, Traceback OverflowError],
        ret = RetPair None None\<rparr>"
  by (simp add: get_data_def date_window_def timedelta_def datetime_sub_def sample_now_def
      us_per_day_def datetime_end_def fetch_failed_def)

section \<open>The long form of the multi-line chart\<close>

lemma zip_filter_pick:
  "length ls = length xs \<Longrightarrow>
   zip (filter P ls) (pick P ls xs) = filter (\<lambda>lx. P (fst lx)) (zip ls xs)"
  unfolding pick_def by (induction ls xs rule: list_induct2) simp_all

lemma length_pick:
  "length ls = length xs \<Longrightarrow> length (pick P ls xs) = length (filter P ls)"
  unfolding pick_def by (induction ls xs rule: list_induct2) simp_all

lemma filter_eq_single:
  "distinct ls \<Longrightarrow> k \<in> set ls \<Longrightarrow> filter (\<lambda>l. l = k) ls = [k]"
  by (induction ls) (auto simp: filter_empty_conv)

lemma pick_not_in:
  "k \<notin> set ls \<Longrightarrow> pick (\<lambda>l. l = k) ls xs = []"
  unfolding pick_def by (auto simp: filter_empty_conv dest: set_zip_leftD)

lemma pick_map_of:
  "length ls = length xs \<Longrightarrow> distinct ls \<Longrightarrow> k \<in> set ls \<Longrightarrow>
   map Some (pick (\<lambda>l. l = k) ls xs) = [map_of (zip ls xs) k]"
proof (induction ls xs rule: list_induct2)
  case Nil
  then show ?case by simp
next
  case (Cons l ls x xs)
  show ?case
  proof (cases "l = k")
    case True
    then have "k \<notin> set ls" using Cons.prems by simp
    then have "pick (\<lambda>l. l = k) ls xs = []" by (rule pick_not_in)
    then show ?thesis using True by (simp add: pick_def)
  next
    case False
    then show ?thesis using Cons by (simp add: pick_def)
  qed
qed

lemma loc_rows_distinct:
  assumes "distinct (names m)" "length (vals m) = length (names m)" "set keys \<subseteq> set (names m)"
  shows "\<exists>dl. loc_rows m keys = Inr dl \<and> names dl = keys \<and> dates dl = dates m
           \<and> dates_name dl = dates_name m
           \<and> map Some (vals dl) = map (map_of (zip (names m) (vals m))) keys"
proof -
  have n: "concat (map (\<lambda>k. filter (\<lambda>n. n = k) (names m)) keys) = keys"
    using assms(3)
  proof (induction keys)
    case Nil
    then show ?case by simp
  next
    case (Cons k ks)
    then show ?case using assms(1) by (simp add: filter_eq_single)
  qed
  have v: "map Some (concat (map (\<lambda>k. pick (\<lambda>n. n = k) (names m) (vals m)) keys))
             = map (map_of (zip (names m) (vals m))) keys"
    using assms(3)
  proof (induction keys)
    case Nil
    then show ?case by simp
  next
    case (Cons k ks)
    then show ?case using assms(1,2) by (simp add: pick_map_of)
  qed
  show ?thesis using assms(3) n v by (simp add: loc_rows_def)
qed

lemma zip_nth_upt:
  "length xs = length ys \<Longrightarrow> zip xs ys = map (\<lambda>i. (xs ! i, ys ! i)) [0..<length xs]"
  by (rule nth_equalityI) simp_all

lemma melt_long_rows:
  assumes "length vs = length ns" "rect (length ds) vs"
  shows "concat (map (\<lambda>j. map (\<lambda>dr. (fst dr, ns ! j, snd dr ! j))
                            (zip ds (transpose_cells (length ds) vs)))
                 [0..<length ns])
         = long_rows ds ns vs"
proof -
  have len: "\<And>j. j < length ns \<Longrightarrow> length (vs ! j) = length ds"
    using assms by (simp add: rect_def list_all_length)
  have row: "map (\<lambda>dr. (fst dr, ns ! j, snd dr ! j)) (zip ds (transpose_cells (length ds) vs))
       = map (\<lambda>dv. (fst dv, ns ! j, snd dv)) (zip ds (vs ! j))" if j: "j < length ns" for j
    using len [OF j] j assms(1)
    by (intro nth_equalityI) (simp_all add: transpose_cells_def)
  have "long_rows ds ns vs
      = concat (map (\<lambda>j. map (\<lambda>dv. (fst dv, ns ! j, snd dv)) (zip ds (vs ! j))) [0..<length ns])"
    using assms(1) by (simp add: long_rows_def zip_nth_upt [of ns vs] comp_def)
  also have "\<dots> = concat (map (\<lambda>j. map (\<lambda>dr. (fst dr, ns ! j, snd dr ! j))
                            (zip ds (transpose_cells (length ds) vs))) [0..<length ns])"
    using row by (intro arg_cong [where f = concat] map_cong) simp_all
  finally show ?thesis by simp
qed


lemma reset_index_label_not_value: "reset_index_label nm cols \<noteq> ''value''"
  by (simp add: reset_index_label_def split: axis_name.splits)

lemma data_melt_long_rows:
  assumes "length (vals dl) = length (names dl)" "rect (length (dates dl)) (vals dl)"
    and "Str (reset_index_label (dates_name dl) (names dl)) \<notin> set (names dl)"
    and "Str ''value'' \<notin> set (names dl)"
  shows "data_melt dl = Inr (long_rows (dates dl) (names dl) (vals dl))"
proof -
  have "''value'' \<noteq> reset_index_label (dates_name dl) (names dl)"
    using reset_index_label_not_value [of "dates_name dl" "names dl"] by (rule not_sym)
  then show ?thesis
    using assms melt_long_rows [OF assms(1,2)]
    by (simp add: data_melt_def reset_index_def melt_def Let_def)
qed

lemma length_long_rows:
  "length ns = length vs \<Longrightarrow> rect (length ds) vs \<Longrightarrow>
   length (long_rows ds ns vs) = length ns * length ds"
  unfolding long_rows_def rect_def by (induction ns vs rule: list_induct2) simp_all

lemma keys_long_rows:
  "length ns = length vs \<Longrightarrow> rect (length ds) vs \<Longrightarrow>
   map (\<lambda>r. (fst (snd r), fst r)) (long_rows ds ns vs) = List.product ns ds"
proof (induction ns vs rule: list_induct2)
  case Nil
  then show ?case by (simp add: long_rows_def)
next
  case (Cons n ns v vs)
  have "map (\<lambda>dv. (n, fst dv)) (zip ds v) = map (Pair n) ds"
    using Cons.prems by (intro nth_equalityI) (simp_all add: rect_def)
  then show ?case using Cons by (simp add: long_rows_def rect_def comp_def)
qed

lemma long_rows_entry:
  assumes "map Some vs = map f ns" "distinct ds" "rect (length ds) vs"
    and "r \<in> set (long_rows ds ns vs)"
  shows "\<exists>row. f (fst (snd r)) = Some row \<and> map_of (zip ds row) (fst r) = Some (snd (snd r))"
proof -
  have len: "length ns = length vs" using assms(1) by (metis length_map)
  obtain n row d v where nr: "(n, row) \<in> set (zip ns vs)" and dv: "(d, v) \<in> set (zip ds row)"
    and r: "r = (d, n, v)"
    using assms(4) by (auto simp: long_rows_def)
  obtain j where j: "j < length ns" "ns ! j = n" "vs ! j = row"
    using nr len by (auto simp: set_zip)
  have "map Some vs ! j = map f ns ! j" using assms(1) by simp
  then have f: "f n = Some row" using j len by simp
  have "row \<in> set vs" using nr by (rule set_zip_rightD)
  then have "length row = length ds" using assms(3) by (simp add: rect_def list_all_iff)
  then have "distinct (map fst (zip ds row))" using assms(2) by simp
  then have "map_of (zip ds row) d = Some v" using dv by (rule map_of_is_SomeI)
  then show ?thesis using f r by simp
qed

lemma rect_loc_rows:
  assumes "map Some vs = map (map_of (zip ns0 vs0)) keys" "rect n vs0"
  shows "rect n vs"
proof -
  have "row \<in> set vs0" if "row \<in> set vs" for row
  proof -
    have "Some row \<in> set (map Some vs)" using that by simp
    then have "Some row \<in> set (map (map_of (zip ns0 vs0)) keys)" by (simp only: assms(1))
    then obtain k where "map_of (zip ns0 vs0) k = Some row" by auto
    then have "(k, row) \<in> set (zip ns0 vs0)" by (rule map_of_SomeD)
    then show ?thesis by (rule set_zip_rightD)
  qed
  then show ?thesis using assms(2) by (auto simp: rect_def list_all_iff)
qed

lemma line_chart_long_rows:
  assumes "close_matrix m" "companies \<noteq> []" "Str ` set companies \<subseteq> set (names m)"
    and "selectable (dates_name m) companies"
  shows "\<exists>dl. loc_rows m (map Str companies) = Inr dl
            \<and> names dl = map Str companies \<and> dates dl = dates m
            \<and> map Some (vals dl) = map (map_of (zip (names m) (vals m))) (map Str companies)
            \<and> rect (length (dates m)) (vals dl)
            \<and> line_chart m companies = Inr [LineChart (long_rows (dates m) (map Str companies) (vals dl))]"
proof -
  have sub: "set (map Str companies) \<subseteq> set (names m)" using assms(3) by simp
  obtain dl where dl: "loc_rows m (map Str companies) = Inr dl" "names dl = map Str companies"
    "dates dl = dates m" "dates_name dl = dates_name m"
    "map Some (vals dl) = map (map_of (zip (names m) (vals m))) (map Str companies)"
    using loc_rows_distinct [OF _ _ sub] assms(1) by (auto simp: close_matrix_def)
  have r: "rect (length (dates m)) (vals dl)"
    using rect_loc_rows [OF dl(5)] assms(1) by (simp add: close_matrix_def)
  have l: "length (vals dl) = length (names dl)" using dl(2,5) by (metis length_map)
  have c1: "Str (reset_index_label (dates_name dl) (names dl)) \<notin> set (names dl)"
    using assms(4) dl(2,4) by (auto simp: selectable_def)
  have c2: "Str ''value'' \<notin> set (names dl)"
    using assms(4) dl(2) by (auto simp: selectable_def)
  have r': "rect (length (dates dl)) (vals dl)" using r dl(3) by simp
  have "data_melt dl = Inr (long_rows (dates dl) (names dl) (vals dl))"
    using l r' c1 c2 by (rule data_melt_long_rows)
  then show ?thesis using dl r assms(2) by (simp add: line_chart_def)
qed


lemma close_at_long_rows:
  assumes "close_matrix m" "map Some vs = map (map_of (zip (names m) (vals m))) ns"
    and "rect (length (dates m)) vs" "r \<in> set (long_rows (dates m) ns vs)"
  shows "close_at m (fst (snd r)) (fst r) = Some (snd (snd r))"
  using long_rows_entry [OF assms(2) _ assms(3,4)] assms(1)
  by (auto simp: close_at_def close_matrix_def)

text \<open>Whatever the widget of line 102 returns is a selection the reshaping accepts.\<close>

lemma company_names_selectable:
  assumes "set companies \<subseteq> set company_names"
  shows "selectable nm companies"
proof -
  have a: "''value'' \<notin> set company_names" "''Date'' \<notin> set company_names"
    "''index'' \<notin> set company_names" "''level_0'' \<notin> set company_names"
    by (simp_all add: company_names_def tickers_def)
  have "reset_index_label nm (map Str companies) \<in> {''Date'', ''index'', ''level_0''}"
    by (simp add: reset_index_label_def split: axis_name.splits)
  then have "reset_index_label nm (map Str companies) \<notin> set company_names"
    using a by auto
  then show ?thesis using assms a(1) by (auto simp: selectable_def)
qed

text \<open>
  C6.  For a Close Matrix and a non-empty selection of its instruments (whose names do
  not clash with the labels the reshaping inserts, as none of the six display names
  does), the multi-line branch builds a long form with exactly one row per selected
  instrument and date: its length is the number of selected instruments times the
  number of dates, its (name, date) pairs are the product of the selection and the
  dates in order, and the value of every row is the matrix entry of its pair, whatever
  it is.  With prices that may be missing (\<open>None\<close>), a missing entry is a row with
  the value \<open>None\<close>: it is neither dropped nor replaced by a number.
\<close>

theorem line_chart_one_row_per_pair:
  assumes "close_matrix m" and "companies \<noteq> []"
    and "Str ` set companies \<subseteq> set (names m)"
    and "selectable (dates_name m) companies"
  shows "\<exists>long. line_chart m companies = Inr [LineChart long]
           \<and> length long = length companies * length (dates m)
           \<and> map (\<lambda>r. (fst (snd r), fst r)) long = List.product (map Str companies) (dates m)
           \<and> map (\<lambda>r. Some (snd (snd r))) long
               = map (\<lambda>nd. close_at m (fst nd) (snd nd)) (List.product (map Str companies) (dates m))"
proof -
  obtain dl where dl: "loc_rows m (map Str companies) = Inr dl"
    "map Some (vals dl) = map (map_of (zip (names m) (vals m))) (map Str companies)"
    "rect (length (dates m)) (vals dl)"
    "line_chart m companies = Inr [LineChart (long_rows (dates m) (map Str companies) (vals dl))]"
    using line_chart_long_rows [OF assms] by blast
  let ?long = "long_rows (dates m) (map Str companies) (vals dl)"
  have len: "length (map Str companies) = length (vals dl)" using dl(2) by (metis length_map)
  have a: "length ?long = length companies * length (dates m)"
    using length_long_rows [OF len dl(3)] by simp
  have b: "map (\<lambda>r. (fst (snd r), fst r)) ?long = List.product (map Str companies) (dates m)"
    using len dl(3) by (rule keys_long_rows)
  have "map (\<lambda>r. Some (snd (snd r))) ?long = map (\<lambda>r. close_at m (fst (snd r)) (fst r)) ?long"
    using close_at_long_rows [OF assms(1) dl(2,3)] by (intro map_cong) simp_all
  also have "\<dots> = map (\<lambda>nd. close_at m (fst nd) (snd nd)) (map (\<lambda>r. (fst (snd r), fst r)) ?long)"
    by (simp add: comp_def)
  finally have c: "map (\<lambda>r. Some (snd (snd r))) ?long
      = map (\<lambda>nd. close_at m (fst nd) (snd nd)) (List.product (map Str companies) (dates m))"
    using b by simp
  show ?thesis using dl(4) a b c by blast
qed


lemma sample_line_chart:
  "line_chart sample_close [''apple'', ''meta'']
     = Inr [LineChart
         [(739921, Str ''apple'', Some 27010), (739922, Str ''apple'', None),
          (739923, Str ''apple'', Some 27230), (739921, Str ''meta'', Some 63020),
          (739922, Str ''meta'', Some 63310), (739923, Str ''meta'', Some 62750)]]"
  by (simp add: line_chart_def loc_rows_def pick_def data_melt_def reset_index_def
      reset_index_label_def melt_def transpose_cells_def Let_def sample_close_def upt_rec)

text \<open>
  Two instruments over three dates give six rows; the non-trading day of AAPL is the
  row with the missing value.
\<close>

theorem line_chart_one_row_per_pair_witness:
  "close_matrix sample_close
   \<and> selectable (dates_name sample_close) [''apple'', ''meta'']
   \<and> (\<exists>long. line_chart sample_close [''apple'', ''meta''] = Inr [LineChart long]
          \<and> length long = 6
          \<and> (739922, Str ''apple'', None) \<in> set long
          \<and> close_at sample_close (Str ''apple'') 739922 = Some None)"
proof -
  have a: "close_matrix sample_close"
    by (simp add: close_matrix_def sample_close_def rect_def)
  have b: "[''apple'', ''meta''] \<noteq> []" by simp
  have c: "Str ` set [''apple'', ''meta''] \<subseteq> set (names sample_close)"
    by (simp add: sample_close_def)
  have d: "selectable (dates_name sample_close) [''apple'', ''meta'']"
    by (simp add: selectable_def sample_close_def reset_index_label_def)
  obtain long where l: "line_chart sample_close [''apple'', ''meta''] = Inr [LineChart long]"
    "length long = length [''apple'', ''meta''] * length (dates sample_close)"
    using line_chart_one_row_per_pair [OF a b c d] by blast
  have "length long = 6" using l(2) by (simp add: sample_close_def)
  moreover have "long = [(739921, Str ''apple'', Some 27010), (739922, Str ''apple'', None),
          (739923, Str ''apple'', Some 27230), (739921, Str ''meta'', Some 63020),
          (739922, Str ''meta'', Some 63310), (739923, Str ''meta'', Some 62750)]"
    using l(1) sample_line_chart by simp
  then have "(739922, Str ''apple'', None) \<in> set long" by simp
  moreover have "close_at sample_close (Str ''apple'') 739922 = Some None"
    by (simp add: close_at_def sample_close_def)
  ultimately show ?thesis using a d l(1) by blast
qed

section \<open>Pivoting the long form back\<close>

lemma remdups_replicate_append:
  "x \<notin> set zs \<Longrightarrow> 0 < k \<Longrightarrow> remdups (replicate k x @ zs) = x # remdups zs"
  by (induction k) auto

lemma remdups_fst_product:
  "distinct xs \<Longrightarrow> ys \<noteq> [] \<Longrightarrow> remdups (map fst (List.product xs ys)) = xs"
proof (induction xs)
  case Nil
  then show ?case by simp
next
  case (Cons x xs)
  have "x \<notin> set (map fst (List.product xs ys))" using Cons.prems by auto
  then show ?case using Cons
    by (simp add: comp_def map_replicate_const remdups_replicate_append)
qed

lemma remdups_snd_product:
  "distinct ys \<Longrightarrow> xs \<noteq> [] \<Longrightarrow> remdups (map snd (List.product xs ys)) = ys"
proof (induction xs)
  case Nil
  then show ?case by simp
next
  case (Cons x xs)
  show ?case
  proof (cases "xs = []")
    case True
    then show ?thesis using Cons.prems by (simp add: comp_def)
  next
    case False
    then have ih: "remdups (map snd (List.product xs ys)) = ys" using Cons by simp
    have "set ys \<subseteq> set (map snd (List.product xs ys))" using False by force
    then have "remdups (ys @ map snd (List.product xs ys)) = remdups (map snd (List.product xs ys))"
      by (rule remdups_append)
    then show ?thesis using ih by (simp add: comp_def)
  qed
qed

lemma long_rows_member:
  assumes "length ns = length vs" "rect (length ds) vs" "j < length ns" "i < length ds"
  shows "(ds ! i, ns ! j, vs ! j ! i) \<in> set (long_rows ds ns vs)"
proof -
  have "vs ! j \<in> set vs" using assms(1,3) by simp
  then have len: "length (vs ! j) = length ds" using assms(2) by (simp add: rect_def list_all_iff)
  have nr: "(ns ! j, vs ! j) \<in> set (zip ns vs)"
    using assms(1,3) by (auto simp: set_zip)
  have dv: "(ds ! i, vs ! j ! i) \<in> set (zip ds (vs ! j))"
    using len assms(4) by (auto simp: set_zip)
  show ?thesis unfolding long_rows_def using nr dv by force
qed

lemma re_pivot_long_rows:
  fixes vs :: "'p option list list"
  assumes "length ns = length vs" "rect (length ds) vs" "distinct ns" "distinct ds"
    and "ns \<noteq> []" "ds \<noteq> []"
  shows "names (re_pivot (long_rows ds ns vs)) = ns
       \<and> dates (re_pivot (long_rows ds ns vs)) = ds
       \<and> vals (re_pivot (long_rows ds ns vs)) = vs"
proof -
  let ?long = "long_rows ds ns vs"
  let ?price = "map_of (map (\<lambda>r. ((fst (snd r), fst r), snd (snd r))) ?long)"
  have keys: "map (\<lambda>r. (fst (snd r), fst r)) ?long = List.product ns ds"
    using assms(1,2) by (rule keys_long_rows)
  have "map (\<lambda>r. fst (snd r)) ?long = map fst (map (\<lambda>r. (fst (snd r), fst r)) ?long)"
    by (simp add: comp_def)
  then have n: "remdups (map (\<lambda>r. fst (snd r)) ?long) = ns"
    using keys assms(3,6) by (simp add: remdups_fst_product)
  have "map fst ?long = map snd (map (\<lambda>r. (fst (snd r), fst r)) ?long)"
    by (simp add: comp_def)
  then have d: "remdups (map fst ?long) = ds"
    using keys assms(4,5) by (simp add: remdups_snd_product)
  have dist: "distinct (map fst (map (\<lambda>r. ((fst (snd r), fst r), snd (snd r))) ?long))"
    using keys assms(3,4) by (simp add: comp_def distinct_product)
  have price: "?price (ns ! j, ds ! i) = Some (vs ! j ! i)" if "j < length ns" "i < length ds" for i j
  proof -
    have "(ds ! i, ns ! j, vs ! j ! i) \<in> set ?long"
      using assms(1,2) that by (rule long_rows_member)
    then have "((ns ! j, ds ! i), vs ! j ! i) \<in> set (map (\<lambda>r. ((fst (snd r), fst r), snd (snd r))) ?long)"
      by force
    with dist show ?thesis by (rule map_of_is_SomeI)
  qed
  have row: "map (\<lambda>d. case ?price (ns ! j, d) of None \<Rightarrow> None | Some v \<Rightarrow> v) ds = vs ! j"
    if j: "j < length ns" for j
  proof -
    have "vs ! j \<in> set vs" using assms(1) j by simp
    then have len: "length (vs ! j) = length ds" using assms(2) by (simp add: rect_def list_all_iff)
    show ?thesis using len price [OF j] by (intro nth_equalityI) simp_all
  qed
  have v: "map (\<lambda>n. map (\<lambda>d. case ?price (n, d) of None \<Rightarrow> None | Some v \<Rightarrow> v) ds) ns = vs"
    using assms(1) row by (intro nth_equalityI) simp_all
  show ?thesis using n d v by (simp add: re_pivot_def Let_def)
qed


text \<open>
  C5.  For a Close Matrix with prices that may be missing and a non-empty selection of
  its instruments without repetition (whose names do not clash with the labels the
  reshaping inserts), the multi-line branch filters the matrix to the selection
  (line 112) and un-pivots it (lines 116-121); pivoting the long form back gives the
  row labels, the dates and the cells of the filtered matrix exactly, missing values
  included.
\<close>

theorem long_form_round_trip:
  fixes m :: "('d, 'p option) close_frame"
  assumes "close_matrix m" and "companies \<noteq> []" and "distinct companies"
    and "Str ` set companies \<subseteq> set (names m)"
    and "selectable (dates_name m) companies"
  shows "\<exists>data_lines long.
           loc_rows m (map Str companies) = Inr data_lines
           \<and> line_chart m companies = Inr [LineChart long]
           \<and> names (re_pivot long) = names data_lines
           \<and> dates (re_pivot long) = dates data_lines
           \<and> vals (re_pivot long) = vals data_lines"
proof -
  obtain dl where dl: "loc_rows m (map Str companies) = Inr dl"
    "names dl = map Str companies" "dates dl = dates m"
    "map Some (vals dl) = map (map_of (zip (names m) (vals m))) (map Str companies)"
    "rect (length (dates m)) (vals dl)"
    "line_chart m companies = Inr [LineChart (long_rows (dates m) (map Str companies) (vals dl))]"
    using line_chart_long_rows [OF assms(1,2,4,5)] by blast
  have len: "length (map Str companies) = length (vals dl)" using dl(4) by (metis length_map)
  have dn: "distinct (map Str companies)" using assms(3) by (simp add: distinct_map inj_on_def)
  have dd: "distinct (dates m)" "dates m \<noteq> []" using assms(1) by (simp_all add: close_matrix_def)
  have ne: "map Str companies \<noteq> []" using assms(2) by simp
  show ?thesis
    using re_pivot_long_rows [OF len dl(5) dn dd(1) ne dd(2)] dl(1,2,3,6) by simp
qed

text \<open>The selection in the order meta, apple; AAPL has a missing price on the second day.\<close>

theorem long_form_round_trip_witness:
  "close_matrix sample_close
   \<and> distinct [''meta'', ''apple'']
   \<and> selectable (dates_name sample_close) [''meta'', ''apple'']
   \<and> (\<exists>data_lines long.
          loc_rows sample_close (map Str [''meta'', ''apple'']) = Inr data_lines
          \<and> line_chart sample_close [''meta'', ''apple''] = Inr [LineChart long]
          \<and> names (re_pivot long) = names data_lines
          \<and> dates (re_pivot long) = dates data_lines
          \<and> vals (re_pivot long) = vals data_lines
          \<and> vals data_lines = [[Some 63020, Some 63310, Some 62750], [Some 27010, None, Some 27230]])"
proof -
  have a: "close_matrix sample_close"
    by (simp add: close_matrix_def sample_close_def rect_def)
  have b: "[''meta'', ''apple''] \<noteq> []" by simp
  have c: "distinct [''meta'', ''apple'']" by simp
  have d: "Str ` set [''meta'', ''apple''] \<subseteq> set (names sample_close)"
    by (simp add: sample_close_def)
  have e: "selectable (dates_name sample_close) [''meta'', ''apple'']"
    by (simp add: selectable_def sample_close_def reset_index_label_def)
  obtain data_lines long where r:
    "loc_rows sample_close (map Str [''meta'', ''apple'']) = Inr data_lines"
    "line_chart sample_close [''meta'', ''apple''] = Inr [LineChart long]"
    "names (re_pivot long) = names data_lines"
    "dates (re_pivot long) = dates data_lines"
    "vals (re_pivot long) = vals data_lines"
    using long_form_round_trip [OF a b c d e] by blast
  have "loc_rows sample_close (map Str [''meta'', ''apple''])
      = Inr (sample_close\<lparr>names := [Str ''meta'', Str ''apple''],
               vals := [[Some 63020, Some 63310, Some 62750], [Some 27010, None, Some 27230]]\<rparr>)"
    by (simp add: loc_rows_def pick_def sample_close_def)
  then have "data_lines = sample_close\<lparr>names := [Str ''meta'', Str ''apple''],
               vals := [[Some 63020, Some 63310, Some 62750], [Some 27010, None, Some 27230]]\<rparr>"
    using r(1) by simp
  then have "vals data_lines = [[Some 63020, Some 63310, Some 62750], [Some 27010, None, Some 27230]]"
    by simp
  then show ?thesis using a c e r by blast
qed

section \<open>One instrument and an answer without the grouping level\<close>

lemmas eval_defs = get_data_def fetch_failed_def Let_def empty_frame_def ncols_def
  single_ticker_fix_def concat_keyed_def iter_columns_def df_close_def getitem_def pick_def
  transpose_cells_def map_label_def ticker_to_name_def

text \<open>
  C2.  The code at an input where it does not re-wrap.  For the one instrument AAPL and an
  answer with flat columns over a \<^verbatim>\<open>DatetimeIndex\<close>, the guard of line 48 is false, so
  nothing is re-wrapped: \<^verbatim>\<open>hist["Close"]\<close> is a Series, line 62 raises AttributeError
  and \<^verbatim>\<open>get_data\<close> returns \<^verbatim>\<open>(None, None)\<close>.  When the index is not a
  \<^verbatim>\<open>DatetimeIndex\<close> the guard holds, but lines 51-52 label the columns
  ((ticker, field), ticker), so \<^verbatim>\<open>hist["Close"]\<close> raises KeyError.  Fetched together
  with META, the same instrument gets its Close row.
\<close>

theorem single_instrument_flat_answer:
  "get_data (\<lambda>ts a b. Inr sample_flat) sample_now 30 [(''apple'', ''AAPL'')]
     = \<lparr>requests = [([''AAPL''], sample_now - 29 * us_per_day, sample_now)],
        reports = [FetchFailed AttributeError, Traceback AttributeError],
        ret = RetPair None None\<rparr>
   \<and> get_data (\<lambda>ts a b. Inr (sample_flat\<lparr>is_datetime_index := False\<rparr>)) sample_now 30
        [(''apple'', ''AAPL'')]
     = \<lparr>requests = [([''AAPL''], sample_now - 29 * us_per_day, sample_now)],
        reports = [FetchFailed KeyError, Traceback KeyError],
        ret = RetPair None None\<rparr>
   \<and> get_data (\<lambda>ts a b. Inr sample_hist) sample_now 30 [(''apple'', ''AAPL''), (''meta'', ''META'')]
     = \<lparr>requests = [([''AAPL'', ''META''], sample_now - 29 * us_per_day, sample_now)],
        reports = [],
        ret = RetPair (Some sample_hist) (Some sample_close)\<rparr>"
proof -
  have a: "get_data (\<lambda>ts a b. Inr sample_flat) sample_now 30 [(''apple'', ''AAPL'')]
     = \<lparr>requests = [([''AAPL''], sample_now - 29 * us_per_day, sample_now)],
        reports = [FetchFailed AttributeError, Traceback AttributeError],
        ret = RetPair None None\<rparr>"
    by (simp add: eval_defs sample_window sample_flat_def)
  have b: "get_data (\<lambda>ts a b. Inr (sample_flat\<lparr>is_datetime_index := False\<rparr>)) sample_now 30
        [(''apple'', ''AAPL'')]
     = \<lparr>requests = [([''AAPL''], sample_now - 29 * us_per_day, sample_now)],
        reports = [FetchFailed KeyError, Traceback KeyError],
        ret = RetPair None None\<rparr>"
    by (simp add: eval_defs sample_window sample_flat_def)
  have c: "get_data (\<lambda>ts a b. Inr sample_hist) sample_now 30 [(''apple'', ''AAPL''), (''meta'', ''META'')]
     = \<lparr>requests = [([''AAPL'', ''META''], sample_now - 29 * us_per_day, sample_now)],
        reports = [],
        ret = RetPair (Some sample_hist) (Some sample_close)\<rparr>"
    by (simp add: eval_defs sample_window sample_hist_def sample_close_def upt_rec)
  show ?thesis by (intro conjI) (fact a b c)+
qed

section \<open>The table of one instrument\<close>



lemma ohlc_table_fields:
  assumes "ohlc_table h" "columns h = MultiIndex ps" "t \<in> snd ` set ps" "f \<in> set ohlc_fields"
  shows "(f, t) \<in> set ps"
proof -
  obtain p where p: "p \<in> set ps" "snd p = t" using assms(3) by auto
  have "list_all (\<lambda>p. list_all (\<lambda>f. (f, snd p) \<in> set ps) ohlc_fields) ps"
    using assms(1,2) by (simp add: ohlc_table_def)
  then show ?thesis using p assms(4) by (auto simp: list_all_iff)
qed








lemma sample_hist_ohlc_table: "ohlc_table sample_hist"
  by (simp add: ohlc_table_def sample_hist_def rect_def ohlc_fields_def)


lemmas candlestick_defs = candlestick_def tickers_def ohlc_data_def loc_ticker_def droplevel1_def
  getitem_list_def pick_def reset_index_def reset_index_label_def empty_table_def Let_def

lemma sample_candlestick:
  "candlestick tickers sample_hist ''apple''
     = Inr [CandleChart
         \<lparr>table_columns = [Str ''Date'', Str ''Open'', Str ''High'', Str ''Low'', Str ''Close''],
          table_rows = [(739921, [Some 26900, Some 27150, Some 26800, Some 27010]),
                        (739922, [None, None, None, None]),
                        (739923, [Some 27050, Some 27400, Some 27000, Some 27230])]\<rparr>]"
  by (simp add: candlestick_defs sample_hist_def)

text \<open>
  With an index the provider left unnamed the date column is labelled \<^verbatim>\<open>index\<close>, and
  the branch ends in the ValueError of line 186.
\<close>

lemma sample_candlestick_unnamed_index:
  "candlestick tickers (sample_hist\<lparr>index_name := Unnamed\<rparr>) ''apple'' = Inl ValueError"
  by (simp add: candlestick_defs sample_hist_def)



section \<open>The Close Matrix\<close>

lemma fold_update_other:
  "t \<notin> snd ` set tks \<Longrightarrow> fold (\<lambda>kv m. m(snd kv \<mapsto> fst kv)) tks m t = m t"
proof (induction tks arbitrary: m)
  case Nil
  then show ?case by (simp only: fold_simps)
next
  case (Cons kv tks)
  have "t \<notin> snd ` set tks" and ne: "t \<noteq> snd kv" using Cons.prems by auto
  then have "fold (\<lambda>kv m. m(snd kv \<mapsto> fst kv)) tks (m(snd kv \<mapsto> fst kv)) t
      = (m(snd kv \<mapsto> fst kv)) t"
    using Cons.IH by blast
  also have "\<dots> = m t" using ne by (simp only: fun_upd_apply if_False)
  finally show ?case by (simp only: fold_simps)
qed

lemma fold_update_Some:
  "distinct (map snd tks) \<Longrightarrow> (n, t) \<in> set tks \<Longrightarrow>
   fold (\<lambda>kv m. m(snd kv \<mapsto> fst kv)) tks m t = Some n"
proof (induction tks arbitrary: m)
  case Nil
  then show ?case by simp
next
  case (Cons kv tks)
  have d: "distinct (map snd tks)" using Cons.prems(1) by simp
  have "fold (\<lambda>kv m. m(snd kv \<mapsto> fst kv)) tks (m(snd kv \<mapsto> fst kv)) t = Some n"
  proof (cases "kv = (n, t)")
    case True
    then have "t \<notin> snd ` set tks" using Cons.prems(1) by auto
    then have "fold (\<lambda>kv m. m(snd kv \<mapsto> fst kv)) tks (m(snd kv \<mapsto> fst kv)) t
        = (m(snd kv \<mapsto> fst kv)) t"
      by (rule fold_update_other)
    also have "\<dots> = Some n" using True by simp
    finally show ?thesis .
  next
    case False
    then have "(n, t) \<in> set tks" using Cons.prems(2) by auto
    with d show ?thesis by (rule Cons.IH)
  qed
  then show ?case by (simp only: fold_simps)
qed

lemma ticker_to_name_Some:
  "distinct (map snd tks) \<Longrightarrow> (n, t) \<in> set tks \<Longrightarrow> ticker_to_name tks t = Some n"
  unfolding ticker_to_name_def by (rule fold_update_Some)

lemma tickers_symbol_unique:
  assumes "distinct (map fst tks)" "(n, t1) \<in> set tks" "(n, t2) \<in> set tks"
  shows "t1 = t2"
proof -
  have "map_of tks n = Some t1" using assms(1,2) by (rule map_of_is_SomeI)
  moreover have "map_of tks n = Some t2" using assms(1,3) by (rule map_of_is_SomeI)
  ultimately show ?thesis by simp
qed

lemma distinct_level1:
  assumes "distinct ps"
  shows "distinct (map snd (filter (\<lambda>p. fst p = f) ps))"
proof -
  have "inj_on snd (set (filter (\<lambda>p. fst p = f) ps))"
    by (auto simp: inj_on_def)
  then show ?thesis using assms by (simp add: distinct_map)
qed

lemma pick_nth:
  assumes "distinct ps" "length ps = length row" "i < length (filter Q ps)"
  shows "map_of (zip ps row) (filter Q ps ! i) = Some (pick Q ps row ! i)"
proof -
  have len: "length (pick Q ps row) = length (filter Q ps)" using assms(2) by (rule length_pick)
  then have "(filter Q ps ! i, pick Q ps row ! i) \<in> set (zip (filter Q ps) (pick Q ps row))"
    using assms(3) by (auto simp: set_zip)
  then have "(filter Q ps ! i, pick Q ps row ! i) \<in> set (filter (\<lambda>lx. Q (fst lx)) (zip ps row))"
    using zip_filter_pick [OF assms(2), of Q] by simp
  then have "(filter Q ps ! i, pick Q ps row ! i) \<in> set (zip ps row)" by simp
  moreover have "distinct (map fst (zip ps row))" using assms(1,2) by simp
  ultimately show ?thesis by (rule map_of_is_SomeI [rotated])
qed


lemma map_of_zip_map_values:
  "map_of (zip xs (map g ys)) d = map_option g (map_of (zip xs ys) d)"
proof -
  have "zip xs (map g ys) = map (\<lambda>kv. (fst kv, g (snd kv))) (zip xs ys)"
    by (simp add: zip_map2 case_prod_beta)
  then show ?thesis by (simp add: map_of_map [unfolded case_prod_beta comp_def, of g])
qed

lemma map_of_zip_absent: "k \<notin> set ps \<Longrightarrow> map_of (zip ps row) k = None"
  by (auto simp: map_of_eq_None_iff dest: set_zip_leftD)


text \<open>
  C9.  For an OHLC Table with at least one column, whose instruments are among the
  symbols of the mapping, and a mapping whose display names are pairwise distinct and
  whose symbols are pairwise distinct, lines 56-64 succeed and give the Close Matrix:
  its columns are the table's dates; its row labels are the Close columns' symbols
  relabelled through the inverted mapping, each of them a display name of the mapping;
  and for every instrument (name, symbol) of the mapping and every date, the matrix
  entry at (name, date) is the table's cell at (date, (Close, symbol)), both looked up
  by label (both absent when the symbol has no column or the date is not in the index).
\<close>

theorem df_close_entries:
  assumes tab: "ohlc_table h" and cols: "columns h = MultiIndex ps" and ne: "ps \<noteq> []"
    and dn: "distinct (map fst tks)" and ds: "distinct (map snd tks)"
    and req: "snd ` set ps \<subseteq> (\<lambda>kv. Str (snd kv)) ` set tks"
    and inst: "(name, tkr) \<in> set tks"
  shows "\<exists>c. df_close tks h = Inr c
           \<and> dates c = index h
           \<and> names c = map (\<lambda>p. map_label (ticker_to_name tks) (snd p))
                            (filter (\<lambda>p. fst p = Str ''Close'') ps)
           \<and> set (names c) \<subseteq> (\<lambda>kv. Str (fst kv)) ` set tks
           \<and> close_at c (Str name) d = hist_at h d (Str ''Close'', Str tkr)"
proof -
  let ?C = "Str ''Close''"
  let ?Q = "\<lambda>p. fst p = ?C"
  let ?cl = "filter ?Q ps"
  let ?ls = "map snd ?cl"
  let ?sub = "map (pick ?Q ps) (cells h)"
  let ?rel = "map_label (ticker_to_name tks)"
  let ?vals = "transpose_cells (length ?ls) ?sub"
  let ?c = "\<lparr>names = map ?rel ?ls, dates = index h, dates_name = index_name h, vals = ?vals\<rparr>"
  have dps: "distinct ps" and dix: "distinct (index h)"
    and lc: "length (cells h) = length (index h)" and rc: "rect (length ps) (cells h)"
    using tab cols by (simp_all add: ohlc_table_def)
  have closein: "?C \<in> fst ` set ps"
  proof -
    obtain p where p: "p \<in> set ps" using ne by (cases ps) auto
    have "?C \<in> set ohlc_fields" by (simp add: ohlc_fields_def)
    then have "(?C, snd p) \<in> set ps" using tab cols p ohlc_table_fields by blast
    then show ?thesis by force
  qed
  have run: "df_close tks h = Inr ?c"
    using cols closein by (simp add: df_close_def getitem_def)
  have rel: "\<exists>n t. (n, t) \<in> set tks \<and> l = Str t \<and> ?rel l = Str n" if l: "l \<in> set ?ls" for l
  proof -
    have "l \<in> snd ` set ps" using l by auto
    then obtain kv where kv: "kv \<in> set tks" "l = Str (snd kv)" using req by blast
    have "ticker_to_name tks (snd kv) = Some (fst kv)"
      using ds kv(1) by (intro ticker_to_name_Some) simp_all
    then have "?rel l = Str (fst kv)" using kv(2) by (simp add: map_label_def)
    then show ?thesis using kv by (metis prod.collapse)
  qed
  have sub: "set (map ?rel ?ls) \<subseteq> (\<lambda>kv. Str (fst kv)) ` set tks"
  proof
    fix x assume "x \<in> set (map ?rel ?ls)"
    then have "x \<in> ?rel ` set ?ls" by (simp only: set_map)
    then obtain l where l: "l \<in> set ?ls" "x = ?rel l" by (rule imageE)
    then obtain n t where "(n, t) \<in> set tks" "?rel l = Str n" using rel by blast
    then show "x \<in> (\<lambda>kv. Str (fst kv)) ` set tks" using l(2) by force
  qed
  have dls: "distinct ?ls" using dps by (rule distinct_level1)
  have inj: "inj_on ?rel (set ?ls)"
  proof (rule inj_onI)
    fix l1 l2 assume a: "l1 \<in> set ?ls" "l2 \<in> set ?ls" "?rel l1 = ?rel l2"
    obtain n1 t1 where 1: "(n1, t1) \<in> set tks" "l1 = Str t1" "?rel l1 = Str n1"
      using rel [OF a(1)] by blast
    obtain n2 t2 where 2: "(n2, t2) \<in> set tks" "l2 = Str t2" "?rel l2 = Str n2"
      using rel [OF a(2)] by blast
    have "n1 = n2" using a(3) 1(3) 2(3) by simp
    then have "(n1, t2) \<in> set tks" using 2(1) by simp
    with dn 1(1) have "t1 = t2" by (rule tickers_symbol_unique)
    then show "l1 = l2" using 1(2) 2(2) by simp
  qed
  have dnames: "distinct (map ?rel ?ls)"
    by (rule iffD2 [OF distinct_map]) (intro conjI dls inj)
  have lenv: "length (map ?rel ?ls) = length ?vals" by (simp add: transpose_cells_def)
  have entry: "close_at ?c (Str name) d = hist_at h d (?C, Str tkr)"
  proof (cases "(?C, Str tkr) \<in> set ps")
    case True
    then have "(?C, Str tkr) \<in> set ?cl" by simp
    then obtain i where i: "i < length ?cl" "?cl ! i = (?C, Str tkr)"
      unfolding in_set_conv_nth by blast
    have "ticker_to_name tks tkr = Some name" using ds inst by (rule ticker_to_name_Some)
    then have "map ?rel ?ls ! i = Str name" using i by (simp add: map_label_def)
    moreover have "map_of (zip (map ?rel ?ls) ?vals) (map ?rel ?ls ! i) = Some (?vals ! i)"
      using lenv dnames i(1) by (intro map_of_zip_nth) simp_all
    ultimately have row: "map_of (zip (map ?rel ?ls) ?vals) (Str name) = Some (?vals ! i)" by simp
    have vi: "?vals ! i = map (\<lambda>row. pick ?Q ps row ! i) (cells h)"
      using i(1) by (simp add: transpose_cells_def comp_def)
    have lhs: "close_at ?c (Str name) d
        = map_option (\<lambda>row. pick ?Q ps row ! i) (map_of (zip (index h) (cells h)) d)"
      using row vi by (simp add: close_at_def map_of_zip_map_values)
    show ?thesis
    proof (cases "map_of (zip (index h) (cells h)) d")
      case None
      then show ?thesis using lhs cols by (simp add: hist_at_def)
    next
      case (Some row)
      then have "(d, row) \<in> set (zip (index h) (cells h))" by (rule map_of_SomeD)
      then have "row \<in> set (cells h)" by (rule set_zip_rightD)
      then have "length ps = length row" using rc by (simp add: rect_def list_all_iff)
      then have "map_of (zip ps row) (?cl ! i) = Some (pick ?Q ps row ! i)"
        using dps i(1) by (intro pick_nth)
      then show ?thesis using lhs cols Some i(2) by (simp add: hist_at_def)
    qed
  next
    case False
    have "Str name \<notin> set (map ?rel ?ls)"
    proof
      assume "Str name \<in> set (map ?rel ?ls)"
      then have "Str name \<in> ?rel ` set ?ls" by (simp only: set_map)
      then obtain l where l0: "l \<in> set ?ls" "Str name = ?rel l" by (rule imageE)
      then have l: "l \<in> set ?ls" "?rel l = Str name" by simp_all
      then obtain n t where nt: "(n, t) \<in> set tks" "l = Str t" "?rel l = Str n"
        using rel by blast
      have "n = name" using l(2) nt(3) by simp
      then have "(name, t) \<in> set tks" using nt(1) by simp
      with dn have "t = tkr" using inst by (rule tickers_symbol_unique)
      then have "Str tkr \<in> set ?ls" using l(1) nt(2) by simp
      then have "(?C, Str tkr) \<in> set ps" by auto
      then show False using False by simp
    qed
    then have "map_of (zip (map ?rel ?ls) ?vals) (Str name) = None"
      by (rule iffD2 [OF map_of_zip_is_None [OF lenv]])
    then have l0: "close_at ?c (Str name) d = None" by (simp add: close_at_def)
    have "hist_at h d (?C, Str tkr) = None"
      using cols False by (simp add: hist_at_def map_of_zip_absent split: option.splits)
    then show ?thesis using l0 by simp
  qed
  show ?thesis
    using run sub entry by (intro exI [of _ ?c]) simp
qed


text \<open>The sample table and the mapping of lines 75-83.\<close>

lemma sample_df_close: "df_close tickers sample_hist = Inr sample_close"
  by (simp add: df_close_def getitem_def pick_def transpose_cells_def map_label_def
      ticker_to_name_tickers sample_hist_def sample_close_def upt_rec)

theorem df_close_entries_witness:
  "ohlc_table sample_hist
   \<and> (''apple'', ''AAPL'') \<in> set tickers
   \<and> df_close tickers sample_hist = Inr sample_close
   \<and> names sample_close = [Str ''apple'', Str ''meta'']
   \<and> close_at sample_close (Str ''apple'') 739923 = hist_at sample_hist 739923 (Str ''Close'', Str ''AAPL'')
   \<and> hist_at sample_hist 739923 (Str ''Close'', Str ''AAPL'') = Some (Some 27230)
   \<and> hist_at sample_hist 739922 (Str ''Close'', Str ''AAPL'') = Some None"
proof -
  have h1: "ohlc_table sample_hist"
    by (simp add: ohlc_table_def sample_hist_def rect_def ohlc_fields_def)
  have c: "columns sample_hist = MultiIndex
        [(Str ''Close'', Str ''AAPL''), (Str ''Close'', Str ''META''),
         (Str ''High'', Str ''AAPL''), (Str ''High'', Str ''META''),
         (Str ''Low'', Str ''AAPL''), (Str ''Low'', Str ''META''),
         (Str ''Open'', Str ''AAPL''), (Str ''Open'', Str ''META'')]" (is "_ = MultiIndex ?ps")
    by (simp add: sample_hist_def)
  have ne: "?ps \<noteq> []" by simp
  have dn: "distinct (map fst tickers)" and ds: "distinct (map snd tickers)"
    by (simp_all add: tickers_def)
  have req: "snd ` set ?ps \<subseteq> (\<lambda>kv. Str (snd kv)) ` set tickers"
    by (simp add: tickers_def)
  have inst: "(''apple'', ''AAPL'') \<in> set tickers" by (simp add: tickers_def)
  obtain c where c1: "df_close tickers sample_hist = Inr c"
    and c2: "close_at c (Str ''apple'') 739923 = hist_at sample_hist 739923 (Str ''Close'', Str ''AAPL'')"
    using df_close_entries [OF h1 c ne dn ds req inst, of 739923] by blast
  have "c = sample_close" using c1 sample_df_close by simp
  then have e: "close_at sample_close (Str ''apple'') 739923
      = hist_at sample_hist 739923 (Str ''Close'', Str ''AAPL'')"
    using c2 by simp
  have n: "names sample_close = [Str ''apple'', Str ''meta'']" by (simp add: sample_close_def)
  have v1: "hist_at sample_hist 739923 (Str ''Close'', Str ''AAPL'') = Some (Some 27230)"
    by (simp add: hist_at_def sample_hist_def)
  have v2: "hist_at sample_hist 739922 (Str ''Close'', Str ''AAPL'') = Some None"
    by (simp add: hist_at_def sample_hist_def)
  show ?thesis by (intro conjI) (fact h1 inst sample_df_close n e v1 v2)+
qed

section \<open>The memoized fetch\<close>










section \<open>The outcomes of a fetch\<close>

lemma index_single_ticker_fix: "index (single_ticker_fix tkr_list hist) = index hist"
  by (simp add: single_ticker_fix_def Let_def split: columns.splits)

lemma single_ticker_fix_grouped:
  "columns hist = MultiIndex ps \<Longrightarrow> single_ticker_fix tkr_list hist = hist"
  by (simp add: single_ticker_fix_def)

lemma df_close_ohlc_table:
  assumes "ohlc_table hist" "\<not> empty_frame hist"
  shows "\<exists>m. df_close tks hist = Inr m"
proof -
  obtain ps where ps: "columns hist = MultiIndex ps"
    using assms(1) by (cases "columns hist") (simp_all add: ohlc_table_def)
  have "ps \<noteq> []" using assms(2) ps by (simp add: empty_frame_def ncols_def)
  then obtain p where p: "p \<in> set ps" by (cases ps) auto
  have "Str ''Close'' \<in> set ohlc_fields" by (simp add: ohlc_fields_def)
  then have "(Str ''Close'', snd p) \<in> set ps" using assms(1) ps p ohlc_table_fields by blast
  then have "Str ''Close'' \<in> fst ` set ps" by force
  then show ?thesis using ps by (simp add: df_close_def getitem_def)
qed

lemma get_data_window_raises:
  "date_window now days = Inl e \<Longrightarrow> get_data yf now days tks = fetch_failed [] e"
  by (simp add: get_data_def)

lemma get_data_provider_raises:
  "date_window now days = Inr w \<Longrightarrow> yf (map snd tks) (fst w) (snd w) = Inl e \<Longrightarrow>
   get_data yf now days tks = fetch_failed [(map snd tks, fst w, snd w)] e"
  by (simp add: get_data_def Let_def)

lemma get_data_empty_answer:
  "date_window now days = Inr w \<Longrightarrow> yf (map snd tks) (fst w) (snd w) = Inr hist \<Longrightarrow>
   empty_frame hist \<Longrightarrow>
   get_data yf now days tks
     = \<lparr>requests = [(map snd tks, fst w, snd w)], reports = [EmptyResult], ret = RetNone\<rparr>"
  by (simp add: get_data_def Let_def)

lemma get_data_reshaping_raises:
  "date_window now days = Inr w \<Longrightarrow> yf (map snd tks) (fst w) (snd w) = Inr hist \<Longrightarrow>
   \<not> empty_frame hist \<Longrightarrow> df_close tks (single_ticker_fix (map snd tks) hist) = Inl e \<Longrightarrow>
   get_data yf now days tks = fetch_failed [(map snd tks, fst w, snd w)] e"
  by (simp add: get_data_def Let_def)

lemma get_data_table:
  "date_window now days = Inr w \<Longrightarrow> yf (map snd tks) (fst w) (snd w) = Inr hist \<Longrightarrow>
   \<not> empty_frame hist \<Longrightarrow> df_close tks (single_ticker_fix (map snd tks) hist) = Inr m \<Longrightarrow>
   get_data yf now days tks
     = \<lparr>requests = [(map snd tks, fst w, snd w)], reports = [],
        ret = RetPair (Some (single_ticker_fix (map snd tks) hist)) (Some m)\<rparr>"
  by (simp add: get_data_def Let_def)

text \<open>The five ways through the body, one of which every run takes.\<close>

lemma get_data_cases:
  obtains (window) e where "date_window now days = Inl e"
  | (provider) w e where "date_window now days = Inr w" "yf (map snd tks) (fst w) (snd w) = Inl e"
  | (empty) w hist where "date_window now days = Inr w"
      "yf (map snd tks) (fst w) (snd w) = Inr hist" "empty_frame hist"
  | (reshaping) w hist e where "date_window now days = Inr w"
      "yf (map snd tks) (fst w) (snd w) = Inr hist" "\<not> empty_frame hist"
      "df_close tks (single_ticker_fix (map snd tks) hist) = Inl e"
  | (table) w hist m where "date_window now days = Inr w"
      "yf (map snd tks) (fst w) (snd w) = Inr hist" "\<not> empty_frame hist"
      "df_close tks (single_ticker_fix (map snd tks) hist) = Inr m"
proof (cases "date_window now days")
  case (Inl e)
  then show ?thesis by (rule window)
next
  case w: (Inr w)
  show ?thesis
  proof (cases "yf (map snd tks) (fst w) (snd w)")
    case (Inl e)
    with w show ?thesis by (rule provider)
  next
    case hist: (Inr hist)
    show ?thesis
    proof (cases "empty_frame hist")
      case True
      with w hist show ?thesis by (rule empty)
    next
      case False
      show ?thesis
      proof (cases "df_close tks (single_ticker_fix (map snd tks) hist)")
        case (Inl e)
        with w hist False show ?thesis by (rule reshaping)
      next
        case (Inr m)
        with w hist False show ?thesis by (rule table)
      qed
    qed
  qed
qed

lemma get_data_returned_table:
  assumes "ret (get_data yf now days tks) = RetPair (Some h) c"
  shows "\<exists>w hist m. date_window now days = Inr w
           \<and> yf (map snd tks) (fst w) (snd w) = Inr hist
           \<and> h = single_ticker_fix (map snd tks) hist
           \<and> index h = index hist \<and> index h \<noteq> []
           \<and> c = Some m \<and> df_close tks h = Inr m
           \<and> reports (get_data yf now days tks) = []"
proof (cases rule: get_data_cases [where now = now and days = days and yf = yf and tks = tks])
  case (window e)
  then show ?thesis using assms by (simp add: get_data_window_raises fetch_failed_def)
next
  case (provider w e)
  then show ?thesis using assms by (simp add: get_data_provider_raises fetch_failed_def)
next
  case (empty w hist)
  then show ?thesis using assms by (simp add: get_data_empty_answer)
next
  case (reshaping w hist e)
  then show ?thesis using assms by (simp add: get_data_reshaping_raises fetch_failed_def)
next
  case (table w hist m)
  have ne: "index hist \<noteq> []" using table(3) by (simp add: empty_frame_def)
  have "get_data yf now days tks
     = \<lparr>requests = [(map snd tks, fst w, snd w)], reports = [],
        ret = RetPair (Some (single_ticker_fix (map snd tks) hist)) (Some m)\<rparr>"
    using table by (rule get_data_table)
  then have h: "h = single_ticker_fix (map snd tks) hist" and c: "c = Some m"
    and r: "reports (get_data yf now days tks) = []"
    using assms by simp_all
  have i: "index h = index hist" using h by (simp add: index_single_ticker_fix)
  have d: "df_close tks h = Inr m" using h table(4) by simp
  show ?thesis
    using table(1,2) h i ne c d r by (intro exI [of _ w] exI [of _ hist] exI [of _ m]) simp
qed

lemma get_data_three_ways:
  "(\<exists>h c. ret (get_data yf now days tks) = RetPair (Some h) (Some c)
        \<and> reports (get_data yf now days tks) = [])
   \<or> (ret (get_data yf now days tks) = RetNone
        \<and> reports (get_data yf now days tks) = [EmptyResult])
   \<or> (\<exists>e. ret (get_data yf now days tks) = RetPair None None
        \<and> reports (get_data yf now days tks) = [FetchFailed e, Traceback e])"
proof (cases rule: get_data_cases [where now = now and days = days and yf = yf and tks = tks])
  case (window e)
  then show ?thesis by (simp add: get_data_window_raises fetch_failed_def)
next
  case (provider w e)
  then show ?thesis by (simp add: get_data_provider_raises fetch_failed_def)
next
  case (empty w hist)
  then show ?thesis by (simp add: get_data_empty_answer)
next
  case (reshaping w hist e)
  then show ?thesis by (simp add: get_data_reshaping_raises fetch_failed_def)
next
  case (table w hist m)
  then show ?thesis by (simp add: get_data_table)
qed

lemma main_unpack_none:
  "cache s (ui_days u, tickers) = None \<Longrightarrow> ret (get_data yf now (ui_days u) tickers) = RetNone \<Longrightarrow>
   snd (main s yf now u) = map Report (reports (get_data yf now (ui_days u) tickers))
      @ [Report (Unexpected TypeError), Report (Traceback TypeError)]"
  by (simp add: main_def cached_get_data_def Let_def)


text \<open>
  C1, as amended.  A run of \<^verbatim>\<open>get_data\<close> ends in one of three ways: it returns a
  table and its Close matrix without a report; or it reports EmptyResult and returns
  \<^verbatim>\<open>None\<close>; or the handler of line 68 reports FetchFailed and it returns
  \<^verbatim>\<open>(None, None)\<close>.  A returned table has the date index of the provider's answer,
  unchanged and non-empty (so it is increasing exactly when the provider's index is:
  the code does not sort), and its Close matrix is the one lines 56-64 make of it; no
  table without rows is ever returned.  When the provider answers with an OHLC Table
  that is not empty, that very table is returned.  When the answer is empty, the run
  reports EmptyResult.  When the reshaping of lines 56-64 raises, when the provider
  raises, or when the date arithmetic of line 37 raises (then before any request), the
  run reports FetchFailed with that exception.  After an empty answer the render pass
  shows the EmptyResult report followed by the report of the TypeError that unpacking
  \<^verbatim>\<open>None\<close> raises at line 86, caught by the handler of line 191: the pass ends with
  reports, not with an exception.
\<close>

theorem get_data_outcomes:
  fixes yf :: "('d::linorder, 'v) provider"
  shows
    "((\<exists>h c. ret (get_data yf now days tks) = RetPair (Some h) (Some c)
          \<and> reports (get_data yf now days tks) = [])
      \<or> (ret (get_data yf now days tks) = RetNone
          \<and> reports (get_data yf now days tks) = [EmptyResult])
      \<or> (\<exists>e. ret (get_data yf now days tks) = RetPair None None
          \<and> reports (get_data yf now days tks) = [FetchFailed e, Traceback e]))
     \<and> (ret (get_data yf now days tks) = RetPair (Some h) c \<longrightarrow>
          (\<exists>w hist m. date_window now days = Inr w
              \<and> yf (map snd tks) (fst w) (snd w) = Inr hist
              \<and> index h = index hist \<and> index h \<noteq> []
              \<and> sorted_wrt (<) (index h) = sorted_wrt (<) (index hist)
              \<and> c = Some m \<and> df_close tks h = Inr m
              \<and> reports (get_data yf now days tks) = []))
     \<and> (date_window now days = Inr w \<and> yf (map snd tks) (fst w) (snd w) = Inr hist
          \<and> ohlc_table hist \<and> \<not> empty_frame hist \<longrightarrow>
          (\<exists>m. ret (get_data yf now days tks) = RetPair (Some hist) (Some m)
              \<and> df_close tks hist = Inr m
              \<and> reports (get_data yf now days tks) = []))
     \<and> (date_window now days = Inr w \<and> yf (map snd tks) (fst w) (snd w) = Inr hist
          \<and> empty_frame hist \<longrightarrow>
          ret (get_data yf now days tks) = RetNone
          \<and> reports (get_data yf now days tks) = [EmptyResult])
     \<and> (date_window now days = Inr w \<and> yf (map snd tks) (fst w) (snd w) = Inr hist
          \<and> \<not> empty_frame hist
          \<and> df_close tks (single_ticker_fix (map snd tks) hist) = Inl e \<longrightarrow>
          ret (get_data yf now days tks) = RetPair None None
          \<and> reports (get_data yf now days tks) = [FetchFailed e, Traceback e])
     \<and> (date_window now days = Inr w \<and> yf (map snd tks) (fst w) (snd w) = Inl e \<longrightarrow>
          ret (get_data yf now days tks) = RetPair None None
          \<and> reports (get_data yf now days tks) = [FetchFailed e, Traceback e])
     \<and> (date_window now days = Inl e \<longrightarrow>
          ret (get_data yf now days tks) = RetPair None None
          \<and> reports (get_data yf now days tks) = [FetchFailed e, Traceback e]
          \<and> requests (get_data yf now days tks) = [])
     \<and> (cache s (ui_days u, tickers) = None
          \<and> date_window now (ui_days u) = Inr w
          \<and> yf (map snd tickers) (fst w) (snd w) = Inr hist \<and> empty_frame hist \<longrightarrow>
          snd (main s yf now u)
            = [Report EmptyResult, Report (Unexpected TypeError), Report (Traceback TypeError)])"
proof (intro conjI impI)
  show "(\<exists>h c. ret (get_data yf now days tks) = RetPair (Some h) (Some c)
          \<and> reports (get_data yf now days tks) = [])
      \<or> (ret (get_data yf now days tks) = RetNone
          \<and> reports (get_data yf now days tks) = [EmptyResult])
      \<or> (\<exists>e. ret (get_data yf now days tks) = RetPair None None
          \<and> reports (get_data yf now days tks) = [FetchFailed e, Traceback e])"
    by (rule get_data_three_ways)
next
  assume "ret (get_data yf now days tks) = RetPair (Some h) c"
  then obtain w hist m where "date_window now days = Inr w"
    "yf (map snd tks) (fst w) (snd w) = Inr hist" "index h = index hist" "index h \<noteq> []"
    "c = Some m" "df_close tks h = Inr m" "reports (get_data yf now days tks) = []"
    using get_data_returned_table by blast
  then show "\<exists>w hist m. date_window now days = Inr w
              \<and> yf (map snd tks) (fst w) (snd w) = Inr hist
              \<and> index h = index hist \<and> index h \<noteq> []
              \<and> sorted_wrt (<) (index h) = sorted_wrt (<) (index hist)
              \<and> c = Some m \<and> df_close tks h = Inr m
              \<and> reports (get_data yf now days tks) = []"
    by (intro exI [of _ w] exI [of _ hist] exI [of _ m]) simp
next
  assume a: "date_window now days = Inr w \<and> yf (map snd tks) (fst w) (snd w) = Inr hist
          \<and> ohlc_table hist \<and> \<not> empty_frame hist"
  then obtain ps where "columns hist = MultiIndex ps"
    by (cases "columns hist") (simp_all add: ohlc_table_def)
  then have unch: "single_ticker_fix (map snd tks) hist = hist" by (rule single_ticker_fix_grouped)
  obtain m where m: "df_close tks hist = Inr m" using a df_close_ohlc_table by blast
  have m': "df_close tks (single_ticker_fix (map snd tks) hist) = Inr m"
    using m unch by simp
  have "get_data yf now days tks
     = \<lparr>requests = [(map snd tks, fst w, snd w)], reports = [],
        ret = RetPair (Some (single_ticker_fix (map snd tks) hist)) (Some m)\<rparr>"
    using a get_data_table [OF _ _ _ m', of now days w yf] by blast
  then show "\<exists>m. ret (get_data yf now days tks) = RetPair (Some hist) (Some m)
              \<and> df_close tks hist = Inr m
              \<and> reports (get_data yf now days tks) = []"
    using m unch by (intro exI [of _ m]) simp
next
  assume a: "date_window now days = Inr w \<and> yf (map snd tks) (fst w) (snd w) = Inr hist
          \<and> empty_frame hist"
  have r: "get_data yf now days tks
     = \<lparr>requests = [(map snd tks, fst w, snd w)], reports = [EmptyResult], ret = RetNone\<rparr>"
    using a get_data_empty_answer by blast
  show "ret (get_data yf now days tks) = RetNone" using r by simp
  show "reports (get_data yf now days tks) = [EmptyResult]" using r by simp
next
  assume a: "date_window now days = Inr w \<and> yf (map snd tks) (fst w) (snd w) = Inr hist
          \<and> \<not> empty_frame hist
          \<and> df_close tks (single_ticker_fix (map snd tks) hist) = Inl e"
  have r: "get_data yf now days tks = fetch_failed [(map snd tks, fst w, snd w)] e"
    using a get_data_reshaping_raises by blast
  show "ret (get_data yf now days tks) = RetPair None None"
    using r by (simp add: fetch_failed_def)
  show "reports (get_data yf now days tks) = [FetchFailed e, Traceback e]"
    using r by (simp add: fetch_failed_def)
next
  assume a: "date_window now days = Inr w \<and> yf (map snd tks) (fst w) (snd w) = Inl e"
  have r: "get_data yf now days tks = fetch_failed [(map snd tks, fst w, snd w)] e"
    using a get_data_provider_raises by blast
  show "ret (get_data yf now days tks) = RetPair None None"
    using r by (simp add: fetch_failed_def)
  show "reports (get_data yf now days tks) = [FetchFailed e, Traceback e]"
    using r by (simp add: fetch_failed_def)
next
  assume "date_window now days = Inl e"
  then have r: "get_data yf now days tks = fetch_failed [] e" by (rule get_data_window_raises)
  show "ret (get_data yf now days tks) = RetPair None None"
    using r by (simp add: fetch_failed_def)
  show "reports (get_data yf now days tks) = [FetchFailed e, Traceback e]"
    using r by (simp add: fetch_failed_def)
  show "requests (get_data yf now days tks) = []"
    using r by (simp add: fetch_failed_def)
next
  assume a: "cache s (ui_days u, tickers) = None
          \<and> date_window now (ui_days u) = Inr w
          \<and> yf (map snd tickers) (fst w) (snd w) = Inr hist \<and> empty_frame hist"
  have r: "get_data yf now (ui_days u) tickers
     = \<lparr>requests = [(map snd tickers, fst w, snd w)], reports = [EmptyResult], ret = RetNone\<rparr>"
    using a get_data_empty_answer by blast
  then show "snd (main s yf now u)
            = [Report EmptyResult, Report (Unexpected TypeError), Report (Traceback TypeError)]"
    using a main_unpack_none [of s u yf now] by simp
qed


text \<open>
  The sample table, three increasing dates, comes back as it is with its Close matrix;
  the answer without rows gives EmptyResult and the two reports of the pass.
\<close>

theorem get_data_outcomes_witness:
  "ohlc_table sample_hist \<and> \<not> empty_frame sample_hist
   \<and> index sample_hist = [739921, 739922, 739923]
   \<and> sorted_wrt (<) (index sample_hist)
   \<and> ret (get_data (\<lambda>ts a b. Inr sample_hist) sample_now 30 tickers)
       = RetPair (Some sample_hist) (Some sample_close)
   \<and> reports (get_data (\<lambda>ts a b. Inr sample_hist) sample_now 30 tickers) = []
   \<and> empty_frame sample_empty
   \<and> ret (get_data (\<lambda>ts a b. Inr sample_empty) sample_now 30 tickers) = RetNone
   \<and> reports (get_data (\<lambda>ts a b. Inr sample_empty) sample_now 30 tickers) = [EmptyResult]
   \<and> snd (main new_session (\<lambda>ts a b. Inr sample_empty) sample_now sample_ui)
       = [Report EmptyResult, Report (Unexpected TypeError), Report (Traceback TypeError)]"
proof -
  let ?w = "(sample_now - 29 * us_per_day, sample_now)"
  have t: "ohlc_table sample_hist" by (rule sample_hist_ohlc_table)
  have ne: "\<not> empty_frame sample_hist" by (simp add: empty_frame_def sample_hist_def ncols_def)
  have ix: "index sample_hist = [739921, 739922, 739923]" by (simp add: sample_hist_def)
  have so: "sorted_wrt (<) (index sample_hist)" by (simp add: sample_hist_def)
  have e: "empty_frame sample_empty" by (simp add: sample_empty_def empty_frame_def)
  have c: "cache (new_session :: (int, int option) session) (ui_days sample_ui, tickers) = None"
    by (simp add: new_session_def)
  have d: "ui_days sample_ui = 30" by (simp add: sample_ui_def)
  note full = get_data_outcomes [where yf = "\<lambda>ts a b. Inr sample_hist" and now = sample_now
      and days = 30 and tks = tickers and w = ?w and hist = sample_hist]
  have "\<exists>m. ret (get_data (\<lambda>ts a b. Inr sample_hist) sample_now 30 tickers)
        = RetPair (Some sample_hist) (Some m) \<and> df_close tickers sample_hist = Inr m
      \<and> reports (get_data (\<lambda>ts a b. Inr sample_hist) sample_now 30 tickers) = []"
    using full [THEN conjunct2, THEN conjunct2, THEN conjunct1] sample_window t ne by simp
  then obtain m where m: "ret (get_data (\<lambda>ts a b. Inr sample_hist) sample_now 30 tickers)
        = RetPair (Some sample_hist) (Some m)" "df_close tickers sample_hist = Inr m"
      "reports (get_data (\<lambda>ts a b. Inr sample_hist) sample_now 30 tickers) = []"
    by blast
  have "m = sample_close" using m(2) sample_df_close by simp
  then have r1: "ret (get_data (\<lambda>ts a b. Inr sample_hist) sample_now 30 tickers)
       = RetPair (Some sample_hist) (Some sample_close)"
    using m(1) by simp
  note none = get_data_outcomes [where yf = "\<lambda>ts a b. Inr sample_empty" and now = sample_now
      and days = 30 and tks = tickers and w = ?w and hist = sample_empty
      and s = new_session and u = sample_ui]
  have r2: "ret (get_data (\<lambda>ts a b. Inr sample_empty) sample_now 30 tickers) = RetNone"
    and r3: "reports (get_data (\<lambda>ts a b. Inr sample_empty) sample_now 30 tickers) = [EmptyResult]"
    using none [THEN conjunct2, THEN conjunct2, THEN conjunct2, THEN conjunct1] sample_window e
    by simp_all
  have r4: "snd (main new_session (\<lambda>ts a b. Inr sample_empty) sample_now sample_ui)
       = [Report EmptyResult, Report (Unexpected TypeError), Report (Traceback TypeError)]"
    using none [THEN conjunct2, THEN conjunct2, THEN conjunct2, THEN conjunct2,
        THEN conjunct2, THEN conjunct2, THEN conjunct2] sample_window e c d
    by simp
  show ?thesis by (intro conjI) (fact t ne ix so r1 m(3) e r2 r3 r4)+
qed

text \<open>
  A statement with two outcomes only, a table with an increasing date index or
  EmptyResult, fails twice.  When the provider raises, the run ends with FetchFailed:
  neither a table nor EmptyResult.  When the provider's dates are not increasing, the
  table comes back with the dates as they are and no report.
\<close>

theorem get_data_unsorted_or_failed:
  "ret (get_data (\<lambda>ts a b. Inl ProviderError) sample_now 30 tickers)
     = (RetPair None None :: (int, int option) returned)
   \<and> reports (get_data (\<lambda>ts a b. Inl ProviderError :: exn + (int, int option) frame)
        sample_now 30 tickers)
     = [FetchFailed ProviderError, Traceback ProviderError]
   \<and> ret (get_data (\<lambda>ts a b. Inr sample_unsorted) sample_now 30 tickers)
     = RetPair (Some sample_unsorted)
         (Some \<lparr>names = [Str ''apple'', Str ''meta''], dates = [739923, 739921, 739922],
                 dates_name = Named_Date,
                 vals = [[Some 27230, Some 27010, None], [Some 62750, Some 63020, Some 63310]]\<rparr>)
   \<and> reports (get_data (\<lambda>ts a b. Inr sample_unsorted) sample_now 30 tickers) = []
   \<and> \<not> sorted_wrt (<) (index sample_unsorted)"
proof -
  have a: "ret (get_data (\<lambda>ts a b. Inl ProviderError) sample_now 30 tickers)
     = (RetPair None None :: (int, int option) returned)"
    by (simp add: get_data_def sample_window fetch_failed_def Let_def)
  have b: "reports (get_data (\<lambda>ts a b. Inl ProviderError :: exn + (int, int option) frame)
        sample_now 30 tickers)
     = [FetchFailed ProviderError, Traceback ProviderError]"
    by (simp add: get_data_def sample_window fetch_failed_def Let_def)
  have r: "get_data (\<lambda>ts a b. Inr sample_unsorted) sample_now 30 tickers
     = \<lparr>requests = [(map snd tickers, sample_now - 29 * us_per_day, sample_now)],
        reports = [],
        ret = RetPair (Some sample_unsorted)
         (Some \<lparr>names = [Str ''apple'', Str ''meta''], dates = [739923, 739921, 739922],
                 dates_name = Named_Date,
                 vals = [[Some 27230, Some 27010, None], [Some 62750, Some 63020, Some 63310]]\<rparr>)\<rparr>"
    by (simp add: eval_defs sample_window sample_unsorted_def sample_hist_def upt_rec tickers_def)
  have c: "ret (get_data (\<lambda>ts a b. Inr sample_unsorted) sample_now 30 tickers)
     = RetPair (Some sample_unsorted)
         (Some \<lparr>names = [Str ''apple'', Str ''meta''], dates = [739923, 739921, 739922],
                 dates_name = Named_Date,
                 vals = [[Some 27230, Some 27010, None], [Some 62750, Some 63020, Some 63310]]\<rparr>)"
    using r by simp
  have d: "reports (get_data (\<lambda>ts a b. Inr sample_unsorted) sample_now 30 tickers) = []"
    using r by simp
  have e: "\<not> sorted_wrt (<) (index sample_unsorted)"
    by (simp add: sample_unsorted_def sample_hist_def)
  show ?thesis by (intro conjI) (fact a b c d e)+
qed

end
